theory Spec2Isabelle
  imports Complex_Main "HOL-Library.Multiset"
begin

section \<open>Learning companion: knowledge base and learning records\<close>

text \<open>
  The development embeds the two modules \<^verbatim>\<open>smart_knowledge_base.py\<close> and
  \<^verbatim>\<open>learning_records.py\<close>.

  \<^item> A Python \<^verbatim>\<open>str\<close> is a sequence of Unicode code points, so a string is a list of
    natural numbers (\<open>ustring\<close>); dictionary keys made of hexadecimal digits and the
    mastery labels are ordinary HOL strings.
  \<^item> A keyword set is a HOL set; Python sets are finite, which the theorems about
    arbitrary keyword sets state as a hypothesis.
  \<^item> \<^verbatim>\<open>len(a) / len(b)\<close> is a quotient of two natural numbers. It is modelled by the
    exact rational number. Python's float is the correctly rounded value of that
    quotient, so comparisons between two such quotients, and with the literals
    \<^verbatim>\<open>0.6\<close> and \<^verbatim>\<open>7\<close>, agree with the exact ones as long as the denominators stay below
    \<open>2 ^ 26\<close>.
  \<^item> \<^verbatim>\<open>hashlib.md5(s.encode()).hexdigest()\<close>, \<^verbatim>\<open>datetime.now()\<close> and \<^verbatim>\<open>round(x, 1)\<close> are
    library functions; they are parameters (\<open>H\<close>, \<open>now\<close>, \<open>rnd\<close>) of the functions that
    call them.
  \<^item> A \<^verbatim>\<open>datetime\<close> is a day number and a time of day; the ISO text written into the
    documents is read back by \<^verbatim>\<open>fromisoformat\<close> to the same value, so the documents
    hold the value itself. The calendar's range limit (years 1 to 9999) is not
    modelled.
\<close>

type_synonym uchar = nat
type_synonym ustring = "uchar list"

record datetime =
  dt_date :: int
  dt_time :: nat

subsection \<open>Mastery classifier\<close>

text \<open>\<^verbatim>\<open>LearningRecords._calculate_mastery\<close>: the tests run in descending order.\<close>

definition calculate_mastery :: "rat \<Rightarrow> string" where
  "calculate_mastery score =
     (if score \<ge> 9 then ''excellent''
      else if score \<ge> 7 then ''good''
      else if score \<ge> 5 then ''fair''
      else ''poor'')"

subsection \<open>Keyword extraction\<close>

text \<open>
  \<^verbatim>\<open>str.lower\<close>. Only the ASCII letters are spelled out: the Unicode case mapping
  changes cased letters only, and no code point from U+4E00 to U+9FFF is cased or is
  the lower case of another, so the characters that survive the filter in
  \<open>extract_keywords\<close> are the same.
\<close>

definition py_lower :: "ustring \<Rightarrow> ustring" where
  "py_lower text = map (\<lambda>c. if 65 \<le> c \<and> c \<le> 90 then c + 32 else c) text"

text \<open>The stop-word set of \<^verbatim>\<open>extract_keywords\<close>, by code point, in the source's order.\<close>

definition stopwords :: "ustring set" where
  "stopwords =
     {[30340], [26159], [22312], [26377], [21644], [20102], [19982], [20010], [23545],
      [20026], [36825], [37027], [20160, 20040], [22914, 20309], [24590, 20040],
      [21738, 20123], [21738, 20010], [21527], [21602], [22320, 26041]}"

text \<open>The range test of the comprehension: a code point from U+4E00 to U+9FFF.\<close>

definition ideographic :: "uchar \<Rightarrow> bool" where
  "ideographic c = (19968 \<le> c \<and> c \<le> 40959)"

text \<open>
  \<^verbatim>\<open>SmartKnowledgeBase.extract_keywords\<close>: three loops add to one set. Only the first
  loop consults the stop words; \<^verbatim>\<open>range(len(chars) - 1)\<close> is empty when the difference
  is not positive, as the truncating subtraction on \<open>nat\<close> makes it here.
\<close>

definition extract_keywords :: "ustring \<Rightarrow> ustring set" where
  "extract_keywords text =
     (let text_lower = py_lower text;
          chars = filter ideographic text_lower;
          keywords = {};
          keywords = fold (\<lambda>c ks. if [c] \<notin> stopwords \<and> length [c] = 1
                                     then insert [c] ks else ks) chars keywords;
          keywords = fold (\<lambda>i ks. insert ([chars ! i] @ [chars ! (i + 1)]) ks)
                       [0 ..< length chars - 1] keywords;
          keywords = fold (\<lambda>i ks. insert ([chars ! i] @ [chars ! (i + 1)] @ [chars ! (i + 2)]) ks)
                       [0 ..< length chars - 2] keywords
      in keywords)"

text \<open>
  The extraction as the specification words it: keep the ideographic characters, drop
  the stop-word characters, then take every window of length 1, 2 and 3 of what is left.
\<close>

definition windows :: "nat \<Rightarrow> 'a list \<Rightarrow> 'a list set" where
  "windows n xs = set (map (\<lambda>i. take n (drop i xs)) [0 ..< length xs + 1 - n])"

definition spec_keywords :: "ustring \<Rightarrow> ustring set" where
  "spec_keywords text =
     (let chars = filter (\<lambda>c. [c] \<notin> stopwords) (filter ideographic (py_lower text))
      in windows 1 chars \<union> windows 2 chars \<union> windows 3 chars)"

subsection \<open>Similarity\<close>

text \<open>\<^verbatim>\<open>SmartKnowledgeBase.calculate_similarity\<close>.\<close>

definition calculate_similarity :: "'a set \<Rightarrow> 'a set \<Rightarrow> rat" where
  "calculate_similarity keywords1 keywords2 =
     (if keywords1 = {} \<or> keywords2 = {} then 0
      else let intersection = keywords1 \<inter> keywords2;
               union = keywords1 \<union> keywords2
           in if union \<noteq> {} then of_nat (card intersection) / of_nat (card union) else 0)"

subsection \<open>Knowledge base\<close>

record qa_entry =
  question_hash :: string
  question_zh :: ustring
  question_en :: ustring
  answer_zh :: ustring
  answer_en :: ustring
  difficulty :: string
  tags :: "string list"
  added_at :: datetime
  review_count :: nat
  last_reviewed :: "datetime option"

record topic_data =
  topic_name :: ustring
  created_at :: datetime
  questions :: "qa_entry list"

text \<open>The document \<^verbatim>\<open>self.knowledge_base\<close>: its \<^verbatim>\<open>"topics"\<close> dictionary and its metadata.\<close>

record kb_document =
  topics :: "string \<rightharpoonup> topic_data"
  metadata_created_at :: datetime

text \<open>
  The object: the document in memory and the content of the file at \<^verbatim>\<open>kb_file\<close>
  (\<open>None\<close> while no file exists).
\<close>

record smart_kb =
  knowledge_base :: kb_document
  kb_file :: "kb_document option"

record similar_question =
  question :: ustring
  similarity :: rat
  hash :: string

datatype status = ADDED | EXACT_DUPLICATE | SIMILAR_FOUND

text \<open>The two digests, cut from the hexadecimal MD5 digest \<open>H\<close>.\<close>

definition topic_id_of :: "(ustring \<Rightarrow> string) \<Rightarrow> ustring \<Rightarrow> string" where
  "topic_id_of H topic = take 8 (H topic)"

definition question_hash_of :: "(ustring \<Rightarrow> string) \<Rightarrow> ustring \<Rightarrow> string" where
  "question_hash_of H text = take 16 (H text)"

text \<open>
  \<^verbatim>\<open>SmartKnowledgeBase.find_similar_questions\<close>. \<^verbatim>\<open>list.sort(key=..., reverse=True)\<close> is
  stable: it orders by descending key and keeps elements with equal keys in their
  original order, which is the stable ascending sort on the negated key.
\<close>

definition find_similar_questions ::
  "(ustring \<Rightarrow> string) \<Rightarrow> kb_document \<Rightarrow> ustring \<Rightarrow> ustring \<Rightarrow> rat \<Rightarrow> similar_question list" where
  "find_similar_questions H kb topic new_question threshold =
     (let topic_id = topic_id_of H topic in
      case topics kb topic_id of
        None \<Rightarrow> []
      | Some td \<Rightarrow>
          let new_keywords = extract_keywords new_question;
              similar_questions =
                fold (\<lambda>qa acc.
                        let existing_question = question_zh qa;
                            existing_keywords = extract_keywords existing_question;
                            sim = calculate_similarity new_keywords existing_keywords
                        in if sim \<ge> threshold
                           then acc @ [\<lparr>question = existing_question, similarity = sim,
                                        hash = question_hash qa\<rparr>]
                           else acc)
                     (questions td) []
          in sort_key (\<lambda>x. - similarity x) similar_questions)"

text \<open>
  \<^verbatim>\<open>SmartKnowledgeBase.add_question\<close>. \<open>td\<close> is the entry
  \<^verbatim>\<open>self.knowledge_base["topics"][topic_id]\<close> once the topic has been initialised; the
  result is the returned pair and the object after the call.
\<close>

definition add_question ::
  "(ustring \<Rightarrow> string) \<Rightarrow> datetime \<Rightarrow> smart_kb \<Rightarrow> ustring \<Rightarrow> ustring \<Rightarrow> ustring \<Rightarrow> ustring
     \<Rightarrow> ustring \<Rightarrow> string \<Rightarrow> string list option \<Rightarrow> bool
     \<Rightarrow> (status \<times> similar_question list option) \<times> smart_kb" where
  "add_question H now self topic q_zh q_en a_zh a_en diff tgs force =
     (let topic_id = topic_id_of H topic;
          q_hash = question_hash_of H q_zh;
          kb = knowledge_base self;
          td = (case topics kb topic_id of
                  None \<Rightarrow> \<lparr>topic_name = topic, created_at = now, questions = []\<rparr>
                | Some e \<Rightarrow> e);
          kb = (if topic_id \<notin> dom (topics kb)
                then kb\<lparr>topics := (topics kb)(topic_id \<mapsto> td)\<rparr> else kb);
          self = self\<lparr>knowledge_base := kb\<rparr>
      in if list_ex (\<lambda>qa. question_hash qa = q_hash) (questions td)
         then ((EXACT_DUPLICATE, None), self)
         else
           let similar = (if \<not> force
                          then find_similar_questions H kb topic q_zh (6 / 10) else [])
           in if \<not> force \<and> similar \<noteq> []
              then ((SIMILAR_FOUND, Some similar), self)
              else
                let qa_entry =
                      \<lparr>question_hash = q_hash, question_zh = q_zh, question_en = q_en,
                       answer_zh = a_zh, answer_en = a_en, difficulty = diff,
                       tags = (case tgs of None \<Rightarrow> [] | Some t \<Rightarrow> t),
                       added_at = now, review_count = 0, last_reviewed = None\<rparr>;
                    kb = kb\<lparr>topics := (topics kb)
                           (topic_id \<mapsto> td\<lparr>questions := questions td @ [qa_entry]\<rparr>)\<rparr>
                in ((ADDED, None), \<lparr>knowledge_base = kb, kb_file = Some kb\<rparr>))"

text \<open>
  The states of the knowledge base: the one built when no file exists, and every state
  after a call of \<open>add_question\<close> with any arguments.
\<close>

inductive reachable :: "(ustring \<Rightarrow> string) \<Rightarrow> smart_kb \<Rightarrow> bool" for H where
  initial: "reachable H \<lparr>knowledge_base = \<lparr>topics = Map.empty, metadata_created_at = t0\<rparr>,
                         kb_file = None\<rparr>"
| step: "reachable H s \<Longrightarrow>
         reachable H (snd (add_question H now s topic q_zh q_en a_zh a_en diff tgs force))"

subsection \<open>Learning records\<close>

text \<open>A Learning Session Event, the dictionary \<^verbatim>\<open>qa_record\<close> of \<^verbatim>\<open>add_qa_record\<close>.\<close>

record session =
  s_timestamp :: datetime
  s_topic :: ustring
  s_question_zh :: ustring
  s_question_en :: ustring
  s_user_answer :: ustring
  s_correct_answer_zh :: ustring
  s_correct_answer_en :: ustring
  s_score :: int
  s_notes :: ustring
  s_mastery_level :: string

text \<open>A Review Obligation, an element of \<^verbatim>\<open>"review_schedule"\<close>.\<close>

record review =
  review_date :: datetime
  r_topic :: ustring
  r_question_zh :: ustring
  r_question_en :: ustring
  r_mastery_level :: string
  interval_days :: int
  completed :: bool

record weak_topic =
  w_topic :: ustring
  w_average_score :: rat
  attempts :: nat

record statistics =
  total_questions :: nat
  correct_answers :: nat
  average_score :: rat
  weak_topics :: "weak_topic list"

text \<open>The document \<^verbatim>\<open>self.records\<close>.\<close>

record records_doc =
  student_name :: ustring
  rec_created_at :: datetime
  learning_sessions :: "session list"
  review_schedule :: "review list"
  stats :: statistics

text \<open>The object: the document in memory and the content of the file at \<^verbatim>\<open>records_file\<close>.\<close>

record learning_records =
  records :: records_doc
  records_file :: "records_doc option"

text \<open>\<^verbatim>\<open>timestamp + timedelta(days=interval)\<close>: the day moves, the time of day stays.\<close>

definition add_days :: "datetime \<Rightarrow> int \<Rightarrow> datetime" where
  "add_days t n = t\<lparr>dt_date := dt_date t + n\<rparr>"

text \<open>
  \<^verbatim>\<open>LearningRecords._schedule_reviews\<close>: the chain compares the mastery label with three
  names and takes the last list for every other label.
\<close>

definition schedule_reviews :: "records_doc \<Rightarrow> session \<Rightarrow> records_doc" where
  "schedule_reviews recs qa_record =
     (let mastery = s_mastery_level qa_record;
          timestamp = s_timestamp qa_record;
          intervals = (if mastery = ''excellent'' then [1, 3, 7, 15, 30]
                       else if mastery = ''good'' then [1, 2, 5, 10, 20]
                       else if mastery = ''fair'' then [1, 2, 4, 7, 14]
                       else [1, 1, 3, 5, 10])
      in fold (\<lambda>interval recs.
                 let rdate = add_days timestamp interval
                 in recs\<lparr>review_schedule := review_schedule recs @
                      [\<lparr>review_date = rdate,
                        r_topic = s_topic qa_record,
                        r_question_zh = s_question_zh qa_record,
                        r_question_en = s_question_en qa_record,
                        r_mastery_level = mastery,
                        interval_days = interval,
                        completed = False\<rparr>]\<rparr>)
              intervals recs)"

text \<open>
  The dictionary \<^verbatim>\<open>topic_scores\<close> keeps its keys in the order of their first insertion,
  which the later loop over \<^verbatim>\<open>items()\<close> follows: an association list. One pass of the
  loop body: create the key with an empty list when it is absent, then append the score.
\<close>

fun add_score :: "(ustring \<times> int list) list \<Rightarrow> ustring \<Rightarrow> int \<Rightarrow> (ustring \<times> int list) list" where
  "add_score [] topic score = [(topic, [] @ [score])]"
| "add_score ((k, v) # rest) topic score =
     (if k = topic then (k, v @ [score]) # rest else (k, v) # add_score rest topic score)"

text \<open>
  \<^verbatim>\<open>LearningRecords._update_statistics\<close>; \<open>rnd\<close> is \<^verbatim>\<open>round(x, 1)\<close>. The sort is the stable
  ascending sort on the rounded average.
\<close>

definition update_statistics :: "(rat \<Rightarrow> rat) \<Rightarrow> records_doc \<Rightarrow> records_doc" where
  "update_statistics rnd recs =
     (let sessions = learning_sessions recs in
      if sessions = [] then recs
      else
        let total = length sessions;
            correct = sum_list (map (\<lambda>s. 1) (filter (\<lambda>s. s_score s \<ge> 7) sessions));
            avg_score = of_int (sum_list (map s_score sessions)) / of_nat total;
            topic_scores = fold (\<lambda>s ts. add_score ts (s_topic s) (s_score s)) sessions [];
            weak = fold (\<lambda>(topic, scores) acc.
                           let avg = of_int (sum_list scores) / of_nat (length scores)
                           in if avg < 7
                              then acc @ [\<lparr>w_topic = topic, w_average_score = rnd avg,
                                           attempts = length scores\<rparr>]
                              else acc)
                        topic_scores [];
            weak = sort_key w_average_score weak
        in recs\<lparr>stats := \<lparr>total_questions = total, correct_answers = correct,
                            average_score = rnd avg_score, weak_topics = weak\<rparr>\<rparr>)"

text \<open>\<^verbatim>\<open>LearningRecords.add_qa_record\<close>.\<close>

definition add_qa_record ::
  "(rat \<Rightarrow> rat) \<Rightarrow> datetime \<Rightarrow> learning_records \<Rightarrow> ustring \<Rightarrow> ustring \<Rightarrow> ustring \<Rightarrow> ustring
     \<Rightarrow> ustring \<Rightarrow> ustring \<Rightarrow> int \<Rightarrow> ustring \<Rightarrow> learning_records" where
  "add_qa_record rnd now self topic q_zh q_en user_ans correct_zh correct_en score notes =
     (let qa_record =
            \<lparr>s_timestamp = now, s_topic = topic, s_question_zh = q_zh, s_question_en = q_en,
             s_user_answer = user_ans, s_correct_answer_zh = correct_zh,
             s_correct_answer_en = correct_en, s_score = score, s_notes = notes,
             s_mastery_level = calculate_mastery (of_int score)\<rparr>;
          recs = records self;
          recs = recs\<lparr>learning_sessions := learning_sessions recs @ [qa_record]\<rparr>;
          recs = update_statistics rnd recs;
          recs = schedule_reviews recs qa_record
      in \<lparr>records = recs, records_file = Some recs\<rparr>)"

text \<open>\<^verbatim>\<open>LearningRecords.get_pending_reviews\<close>; \<^verbatim>\<open>.date()\<close> is the day number.\<close>

definition get_pending_reviews :: "datetime \<Rightarrow> records_doc \<Rightarrow> datetime option \<Rightarrow> review list" where
  "get_pending_reviews now recs date_opt =
     (let date = (case date_opt of None \<Rightarrow> now | Some d \<Rightarrow> d)
      in fold (\<lambda>r pending.
                 if \<not> completed r
                 then (let rdate = review_date r
                       in if dt_date rdate \<le> dt_date date then pending @ [r] else pending)
                 else pending)
              (review_schedule recs) [])"

subsection \<open>Notions used in the statements\<close>

text \<open>
  Names for values built inside \<open>find_similar_questions\<close> and \<open>add_question\<close>: the
  dictionary appended for a stored record that matches, the record appended for a new
  question, and the object after that append and the save.
\<close>

definition similar_entry :: "ustring \<Rightarrow> qa_entry \<Rightarrow> similar_question" where
  "similar_entry new_question qa =
     \<lparr>question = question_zh qa,
      similarity = calculate_similarity (extract_keywords new_question)
                     (extract_keywords (question_zh qa)),
      hash = question_hash qa\<rparr>"

definition new_entry ::
  "(ustring \<Rightarrow> string) \<Rightarrow> datetime \<Rightarrow> ustring \<Rightarrow> ustring \<Rightarrow> ustring \<Rightarrow> ustring
     \<Rightarrow> string \<Rightarrow> string list option \<Rightarrow> qa_entry" where
  "new_entry H now q_zh q_en a_zh a_en diff tgs =
     \<lparr>question_hash = question_hash_of H q_zh, question_zh = q_zh, question_en = q_en,
      answer_zh = a_zh, answer_en = a_en, difficulty = diff,
      tags = (case tgs of None \<Rightarrow> [] | Some t \<Rightarrow> t),
      added_at = now, review_count = 0, last_reviewed = None\<rparr>"

definition store_entry :: "kb_document \<Rightarrow> string \<Rightarrow> topic_data \<Rightarrow> qa_entry \<Rightarrow> smart_kb" where
  "store_entry kb tid td e =
     \<lparr>knowledge_base = kb\<lparr>topics := (topics kb)(tid \<mapsto> td\<lparr>questions := questions td @ [e]\<rparr>)\<rparr>,
      kb_file = Some (kb\<lparr>topics := (topics kb)(tid \<mapsto> td\<lparr>questions := questions td @ [e]\<rparr>)\<rparr>)\<rparr>"

text \<open>The invariant of a document: within a topic, the content digests are distinct.\<close>

definition distinct_digests :: "kb_document \<Rightarrow> bool" where
  "distinct_digests kb =
     (\<forall>tid td. topics kb tid = Some td \<longrightarrow> distinct (map question_hash (questions td)))"

text \<open>
  The obligation \<open>schedule_reviews\<close> appends for one interval, and the interval list its
  chain selects for a mastery label.
\<close>

definition review_of :: "session \<Rightarrow> int \<Rightarrow> review" where
  "review_of qa_record interval =
     \<lparr>review_date = add_days (s_timestamp qa_record) interval,
      r_topic = s_topic qa_record,
      r_question_zh = s_question_zh qa_record,
      r_question_en = s_question_en qa_record,
      r_mastery_level = s_mastery_level qa_record,
      interval_days = interval,
      completed = False\<rparr>"

definition intervals_of :: "string \<Rightarrow> int list" where
  "intervals_of mastery =
     (if mastery = ''excellent'' then [1, 3, 7, 15, 30]
      else if mastery = ''good'' then [1, 2, 5, 10, 20]
      else if mastery = ''fair'' then [1, 2, 4, 7, 14]
      else [1, 1, 3, 5, 10])"

text \<open>
  The scores of the events of one topic, in the order of the log, and the mean of a list
  of scores as an exact rational.
\<close>

definition topic_scores_of :: "session list \<Rightarrow> ustring \<Rightarrow> int list" where
  "topic_scores_of sessions t = map s_score (filter (\<lambda>s. s_topic s = t) sessions)"

definition mean_score :: "int list \<Rightarrow> rat" where
  "mean_score scores = of_int (sum_list scores) / of_nat (length scores)"

subsection \<open>Example data\<close>

text \<open>
  A small knowledge base: the digest stands in for MD5 (it tells strings of different
  lengths apart), and the topic holds one question made of the ideographs
  U+4E00 U+4E00 U+4E01.
\<close>

definition example_digest :: "ustring \<Rightarrow> string" where
  "example_digest s = replicate (length s) (CHR ''a'')"

definition example_time :: datetime where
  "example_time = \<lparr>dt_date = 739000, dt_time = 0\<rparr>"

definition example_entry :: qa_entry where
  "example_entry =
     \<lparr>question_hash = ''aaa'', question_zh = [19968, 19968, 19969], question_en = [81],
      answer_zh = [], answer_en = [65], difficulty = ''medium'', tags = [],
      added_at = example_time, review_count = 0, last_reviewed = None\<rparr>"

definition example_topic :: topic_data where
  "example_topic = \<lparr>topic_name = [83, 81, 76], created_at = example_time,
                     questions = [example_entry]\<rparr>"

definition example_kb :: smart_kb where
  "example_kb =
     \<lparr>knowledge_base = \<lparr>topics = [''aaa'' \<mapsto> example_topic],
                         metadata_created_at = example_time\<rparr>,
      kb_file = None\<rparr>"

text \<open>
  Learning records: an event graded poor at noon of day 739000, an empty document, a
  schedule of four obligations of which one is completed, and an event of a given
  topic and score.
\<close>

definition example_session :: session where
  "example_session =
     \<lparr>s_timestamp = \<lparr>dt_date = 739000, dt_time = 43200\<rparr>, s_topic = [83, 81, 76],
      s_question_zh = [19968, 19969], s_question_en = [81], s_user_answer = [],
      s_correct_answer_zh = [], s_correct_answer_en = [65], s_score = 4, s_notes = [],
      s_mastery_level = ''poor''\<rparr>"

definition example_records :: records_doc where
  "example_records =
     \<lparr>student_name = [83], rec_created_at = \<lparr>dt_date = 739000, dt_time = 0\<rparr>,
      learning_sessions = [], review_schedule = [],
      stats = \<lparr>total_questions = 0, correct_answers = 0, average_score = 0,
               weak_topics = []\<rparr>\<rparr>"

definition example_schedule :: records_doc where
  "example_schedule =
     example_records\<lparr>review_schedule :=
       [\<lparr>review_date = \<lparr>dt_date = 739001, dt_time = 80000\<rparr>, r_topic = [83, 81, 76],
         r_question_zh = [19968], r_question_en = [81], r_mastery_level = ''poor'',
         interval_days = 1, completed = False\<rparr>,
        \<lparr>review_date = \<lparr>dt_date = 739000, dt_time = 0\<rparr>, r_topic = [83, 81, 76],
         r_question_zh = [19969], r_question_en = [81], r_mastery_level = ''poor'',
         interval_days = 1, completed = True\<rparr>,
        \<lparr>review_date = \<lparr>dt_date = 739002, dt_time = 0\<rparr>, r_topic = [83, 81, 76],
         r_question_zh = [19970], r_question_en = [81], r_mastery_level = ''poor'',
         interval_days = 3, completed = False\<rparr>,
        \<lparr>review_date = \<lparr>dt_date = 738999, dt_time = 5\<rparr>, r_topic = [83, 81, 76],
         r_question_zh = [19971], r_question_en = [81], r_mastery_level = ''poor'',
         interval_days = 1, completed = False\<rparr>]\<rparr>"

definition example_event :: "ustring \<Rightarrow> int \<Rightarrow> session" where
  "example_event t n =
     \<lparr>s_timestamp = \<lparr>dt_date = 739000, dt_time = 43200\<rparr>, s_topic = t,
      s_question_zh = [19968, 19969], s_question_en = [81], s_user_answer = [],
      s_correct_answer_zh = [], s_correct_answer_en = [65], s_score = n, s_notes = [],
      s_mastery_level = calculate_mastery (of_int n)\<rparr>"

text \<open>
  A rounding to one decimal place (ties upward); like \<^verbatim>\<open>round(x, 1)\<close> it leaves a value
  with one decimal as it is.
\<close>

definition example_round :: "rat \<Rightarrow> rat" where
  "example_round x = of_int (round (x * 10)) / 10"

text \<open>
  A bank of four questions under one topic, with digests of four different lengths, and a
  log of ten events: three of topic A with scores 3, 3, 4 and seven of topic B with
  scores 3, 3, 3, 3, 3, 4, 4.
\<close>

definition example_question :: "ustring \<Rightarrow> string \<Rightarrow> qa_entry" where
  "example_question q h =
     \<lparr>question_hash = h, question_zh = q, question_en = [81], answer_zh = [],
      answer_en = [65], difficulty = ''medium'', tags = [], added_at = example_time,
      review_count = 0, last_reviewed = None\<rparr>"

definition example_bank_topic :: topic_data where
  "example_bank_topic =
     \<lparr>topic_name = [83, 81, 76], created_at = example_time,
      questions = [example_question [19968, 19968, 19969] ''aaa'',
                   example_question [19968, 19969, 19970, 63] ''aaaa'',
                   example_question [19968, 19969, 19969, 63, 63] ''aaaaa'',
                   example_question [19968, 45, 19969, 63, 63, 63] ''aaaaaa'']\<rparr>"

definition example_bank :: smart_kb where
  "example_bank =
     \<lparr>knowledge_base = \<lparr>topics = [''aaa'' \<mapsto> example_bank_topic],
                         metadata_created_at = example_time\<rparr>,
      kb_file = None\<rparr>"

definition example_tie_log :: "session list" where
  "example_tie_log =
     [example_event [65] 3, example_event [65] 3, example_event [65] 4,
      example_event [66] 3, example_event [66] 3, example_event [66] 3, example_event [66] 3,
      example_event [66] 3, example_event [66] 4, example_event [66] 4]"

subsection \<open>Theorems: mastery classifier\<close>

text \<open>
  C5. The mastery classifier is a total function of the score alone, defined for every
  number, in or out of the range 0 to 10: it returns excellent for a score of at least
  9, good from 7 up to but excluding 9, fair from 5 up to but excluding 7, and poor
  below 5, so each boundary value 9, 7, 5 falls in the higher tier.
\<close>

theorem calculate_mastery_tiers:
  "calculate_mastery score =
     (if 9 \<le> score then ''excellent''
      else if 7 \<le> score \<and> score < 9 then ''good''
      else if 5 \<le> score \<and> score < 7 then ''fair''
      else ''poor'')
   \<and> (score < 5 \<longrightarrow> calculate_mastery score = ''poor'')
   \<and> calculate_mastery 9 = ''excellent'' \<and> calculate_mastery 7 = ''good''
   \<and> calculate_mastery (89 / 10) = ''good''
   \<and> calculate_mastery 5 = ''fair'' \<and> calculate_mastery 4 = ''poor''
   \<and> calculate_mastery 11 = ''excellent'' \<and> calculate_mastery (- 3) = ''poor''"
  by (simp add: calculate_mastery_def)

theorem calculate_mastery_tiers_witness:
  "(2::rat) < 5 \<and> calculate_mastery 2 = ''poor''
   \<and> calculate_mastery 8 = ''good'' \<and> calculate_mastery 6 = ''fair''"
  using calculate_mastery_tiers [of 2] calculate_mastery_tiers [of 8]
    calculate_mastery_tiers [of 6]
  by simp

subsection \<open>Auxiliary facts: windows and loops\<close>


lemma py_lower_ideographic: "filter ideographic (py_lower t) = filter ideographic t"
  by (induction t) (auto simp: py_lower_def ideographic_def)

lemma fold_insert_if:
  "fold (\<lambda>x ks. if P x then insert (f x) ks else ks) xs S = S \<union> f ` {x \<in> set xs. P x}"
  by (induction xs arbitrary: S) auto

lemma fold_insert_all:
  "fold (\<lambda>x ks. insert (f x) ks) xs S = S \<union> f ` set xs"
  by (induction xs arbitrary: S) auto

lemma take1_drop: "i < length xs \<Longrightarrow> take (Suc 0) (drop i xs) = [xs ! i]"
  by (simp add: take_Suc_conv_app_nth)

lemma take2_drop: "i + 1 < length xs \<Longrightarrow> take 2 (drop i xs) = [xs ! i, xs ! (i + 1)]"
  by (simp add: take_Suc_conv_app_nth numeral_2_eq_2)

lemma take3_drop:
  "i + 2 < length xs \<Longrightarrow> take 3 (drop i xs) = [xs ! i, xs ! (i + 1), xs ! (i + 2)]"
  by (simp add: take_Suc_conv_app_nth numeral_3_eq_3 add.commute)

lemma windows_1: "windows 1 xs = (\<lambda>c. [c]) ` set xs"
proof -
  have "windows 1 xs = (\<lambda>i. [xs ! i]) ` {0 ..< length xs}"
    unfolding windows_def by (auto simp: take1_drop intro!: image_cong)
  also have "\<dots> = (\<lambda>c. [c]) ` set xs"
    by (force simp: in_set_conv_nth image_iff)
  finally show ?thesis .
qed

lemma windows_2: "windows 2 xs = (\<lambda>i. [xs ! i] @ [xs ! (i + 1)]) ` set [0 ..< length xs - 1]"
  unfolding windows_def by (auto simp: take2_drop intro!: image_cong)

lemma windows_3:
  "windows 3 xs = (\<lambda>i. [xs ! i] @ [xs ! (i + 1)] @ [xs ! (i + 2)]) ` set [0 ..< length xs - 2]"
  unfolding windows_def by (auto simp: take3_drop intro!: image_cong)

lemma extract_keywords_eq:
  "extract_keywords t =
     (windows 1 (filter ideographic t) - stopwords)
     \<union> windows 2 (filter ideographic t) \<union> windows 3 (filter ideographic t)"
  unfolding extract_keywords_def Let_def py_lower_ideographic windows_1 windows_2 windows_3
    fold_insert_if fold_insert_all
  by auto

lemma windows_length: "k \<in> windows n xs \<Longrightarrow> length k = n"
  unfolding windows_def by auto


lemma windows_Nil: "0 < n \<Longrightarrow> windows n [] = {}"
  unfolding windows_def by simp

subsection \<open>Theorems: keyword extraction\<close>

text \<open>
  C3 (as amended). For every input text, apart from keywords that are themselves entries
  of the stop-word list, \<open>extract_keywords\<close> returns exactly the set of all contiguous
  windows of length 1, 2 and 3 over the sequence of the text's ideographic characters:
  stop-word characters are not removed before the windows are formed, so a keyword of
  length 2 or 3 may contain one. Every keyword is such a window, no single-character
  stop word is emitted, every window of length 3 is emitted, a text with fewer than
  three ideographic characters yields the shorter windows, and a text with no
  ideographic character yields the empty set.
\<close>

theorem extract_keywords_windows:
  "extract_keywords t - stopwords =
     (windows 1 (filter ideographic t) \<union> windows 2 (filter ideographic t)
        \<union> windows 3 (filter ideographic t)) - stopwords
   \<and> extract_keywords t \<subseteq>
       windows 1 (filter ideographic t) \<union> windows 2 (filter ideographic t)
         \<union> windows 3 (filter ideographic t)
   \<and> extract_keywords t \<inter> windows 1 (filter ideographic t) \<inter> stopwords = {}
   \<and> windows 3 (filter ideographic t) \<subseteq> extract_keywords t
   \<and> (filter ideographic t = [] \<longrightarrow> extract_keywords t = {})"
proof -
  let ?cs = "filter ideographic t"
  have eq: "extract_keywords t = (windows 1 ?cs - stopwords) \<union> windows 2 ?cs \<union> windows 3 ?cs"
    by (rule extract_keywords_eq)
  have a: "extract_keywords t - stopwords =
      (windows 1 ?cs \<union> windows 2 ?cs \<union> windows 3 ?cs) - stopwords"
    unfolding eq by blast
  have b: "extract_keywords t \<subseteq> windows 1 ?cs \<union> windows 2 ?cs \<union> windows 3 ?cs"
    unfolding eq by blast
  have c: "extract_keywords t \<inter> windows 1 ?cs \<inter> stopwords = {}"
    unfolding eq using windows_length [of _ 1 ?cs] windows_length [of _ 2 ?cs]
      windows_length [of _ 3 ?cs] by fastforce
  have d: "windows 3 ?cs \<subseteq> extract_keywords t"
    unfolding eq by blast
  have e: "?cs = [] \<longrightarrow> extract_keywords t = {}"
    unfolding eq by (simp add: windows_Nil)
  from a b c d e show ?thesis by blast
qed

theorem extract_keywords_windows_witness:
  "filter ideographic [72, 105] = [] \<and> extract_keywords [72, 105] = {}"
  using extract_keywords_windows [of "[72, 105]"] by (simp add: ideographic_def)

text \<open>
  C3 as stated fails on the three ideographs U+6211 U+7684 U+4E66, whose middle one is a
  stop word: the emitted keyword U+6211 U+7684 contains it, and the window
  U+6211 U+4E66 of the specification's filtered sequence is not emitted.
\<close>

theorem extract_keywords_stopword_counterexample:
  "[25105, 30340] \<in> extract_keywords [25105, 30340, 20070]
   \<and> [30340] \<in> stopwords
   \<and> [25105, 20070] \<in> spec_keywords [25105, 30340, 20070]
   \<and> [25105, 20070] \<notin> extract_keywords [25105, 30340, 20070]
   \<and> extract_keywords [25105, 30340, 20070] \<noteq> spec_keywords [25105, 30340, 20070]"
proof -
  have cs: "filter ideographic [25105, 30340, 20070] = [25105, 30340, 20070]"
    by (simp add: ideographic_def)
  have ek: "extract_keywords [25105, 30340, 20070] =
      {[25105], [20070], [25105, 30340], [30340, 20070], [25105, 30340, 20070]}"
    unfolding extract_keywords_eq cs
    by (auto simp: windows_def stopwords_def upt_rec numeral_2_eq_2 numeral_3_eq_3)
  have sk: "spec_keywords [25105, 30340, 20070] = {[25105], [20070], [25105, 20070]}"
    unfolding spec_keywords_def Let_def py_lower_ideographic cs
    by (auto simp: windows_def stopwords_def upt_rec numeral_2_eq_2 numeral_3_eq_3)
  have st: "[30340] \<in> stopwords" by (simp add: stopwords_def)
  have a: "[25105, 30340] \<in> extract_keywords [25105, 30340, 20070]"
    unfolding ek by simp
  have b: "[25105, 20070] \<in> spec_keywords [25105, 30340, 20070]"
    unfolding sk by simp
  have c: "[25105, 20070] \<notin> extract_keywords [25105, 30340, 20070]"
    unfolding ek by simp
  from b c have d: "extract_keywords [25105, 30340, 20070] \<noteq> spec_keywords [25105, 30340, 20070]"
    by metis
  from a st b c d show ?thesis by blast
qed

subsection \<open>Theorems: similarity\<close>

text \<open>
  C8. For all (finite) keyword sets A and B the similarity score lies between 0 and 1,
  is symmetric, is 0 whenever A or B is empty, and is 1 for A against itself when A is
  not empty.
\<close>

theorem calculate_similarity_bounds:
  assumes "finite A" and "finite B"
  shows "0 \<le> calculate_similarity A B \<and> calculate_similarity A B \<le> 1
     \<and> calculate_similarity A B = calculate_similarity B A
     \<and> (A = {} \<or> B = {} \<longrightarrow> calculate_similarity A B = 0)
     \<and> (A \<noteq> {} \<longrightarrow> calculate_similarity A A = 1)"
proof -
  have le: "card (A \<inter> B) \<le> card (A \<union> B)"
    using assms by (intro card_mono) auto
  have pos: "A \<noteq> {} \<Longrightarrow> 0 < card (A \<union> B)"
    using assms by (simp add: card_gt_0_iff)
  have b1: "0 \<le> calculate_similarity A B"
    by (simp add: calculate_similarity_def Let_def)
  have b2: "calculate_similarity A B \<le> 1"
    using le pos by (auto simp: calculate_similarity_def Let_def divide_le_eq_1)
  have sym: "calculate_similarity A B = calculate_similarity B A"
    by (simp add: calculate_similarity_def Let_def Int_commute Un_commute disj_commute)
  have z: "A = {} \<or> B = {} \<longrightarrow> calculate_similarity A B = 0"
    by (simp add: calculate_similarity_def)
  have one: "A \<noteq> {} \<longrightarrow> calculate_similarity A A = 1"
    using assms by (simp add: calculate_similarity_def Let_def)
  from b1 b2 sym z one show ?thesis by blast
qed

theorem calculate_similarity_bounds_witness:
  "finite {1::nat, 2, 3} \<and> finite {2::nat, 3, 4}
   \<and> calculate_similarity {1::nat, 2, 3} {2, 3, 4} = 1 / 2
   \<and> calculate_similarity {2::nat, 3, 4} {1, 2, 3} = 1 / 2
   \<and> calculate_similarity {1::nat, 2, 3} {1, 2, 3} = 1
   \<and> calculate_similarity {} {2::nat, 3, 4} = 0"
proof -
  have i: "{1::nat, 2, 3} \<inter> {2, 3, 4} = {2, 3}" by auto
  have u: "{1::nat, 2, 3} \<union> {2, 3, 4} = {1, 2, 3, 4}" by auto
  have v: "calculate_similarity {1::nat, 2, 3} {2, 3, 4} = 1 / 2"
    unfolding calculate_similarity_def Let_def i u by simp
  have f: "finite {1::nat, 2, 3}" "finite {2::nat, 3, 4}" "finite ({} :: nat set)" by simp_all
  show ?thesis
    using v calculate_similarity_bounds [OF f(1) f(2)] calculate_similarity_bounds [OF f(3) f(2)]
    by simp
qed

subsection \<open>Auxiliary facts: the deduplication gate\<close>

lemma find_similar_questions_eq:
  "find_similar_questions H kb topic q th =
     (case topics kb (topic_id_of H topic) of
        None \<Rightarrow> []
      | Some td \<Rightarrow>
          sort_key (\<lambda>x. - similarity x)
            (map (similar_entry q)
               (filter (\<lambda>qa. th \<le> similarity (similar_entry q qa)) (questions td))))"
proof -
  have loop: "fold (\<lambda>qa acc.
                 if th \<le> calculate_similarity (extract_keywords q) (extract_keywords (question_zh qa))
                 then acc @ [\<lparr>question = question_zh qa,
                               similarity = calculate_similarity (extract_keywords q)
                                 (extract_keywords (question_zh qa)),
                               hash = question_hash qa\<rparr>]
                 else acc) qs acc0 =
        acc0 @ map (similar_entry q) (filter (\<lambda>qa. th \<le> similarity (similar_entry q qa)) qs)"
    for qs acc0
    by (induction qs arbitrary: acc0) (simp_all add: similar_entry_def)
  show ?thesis
    unfolding find_similar_questions_def Let_def loop append_Nil by (rule refl)
qed

lemma extract_keywords_no_ideograph:
  "\<forall>c \<in> set q. \<not> ideographic c \<Longrightarrow> extract_keywords q = {}"
proof -
  assume "\<forall>c \<in> set q. \<not> ideographic c"
  then have "filter ideographic q = []" by (simp add: filter_empty_conv)
  then show ?thesis unfolding extract_keywords_eq by (simp add: windows_Nil)
qed

lemma calculate_similarity_empty:
  "calculate_similarity {} K = 0" "calculate_similarity K {} = 0"
  by (simp_all add: calculate_similarity_def)

lemma find_similar_no_ideograph:
  assumes "\<forall>c \<in> set q. \<not> ideographic c" and "0 < th"
  shows "find_similar_questions H kb topic q th = []"
proof -
  have "similarity (similar_entry q qa) = 0" for qa
    using assms(1) by (simp add: similar_entry_def extract_keywords_no_ideograph calculate_similarity_empty)
  then have "filter (\<lambda>qa. th \<le> similarity (similar_entry q qa)) qs = []" for qs
    using assms(2) by (simp add: filter_empty_conv)
  then show ?thesis
    unfolding find_similar_questions_eq by (simp split: option.splits)
qed


lemma self_update_id: "self\<lparr>knowledge_base := knowledge_base self\<rparr> = (self :: smart_kb)"
  by simp

lemma add_question_existing:
  assumes "topics (knowledge_base self) (topic_id_of H topic) = Some td"
  shows "add_question H now self topic q_zh q_en a_zh a_en diff tgs force =
     (if list_ex (\<lambda>qa. question_hash qa = question_hash_of H q_zh) (questions td)
      then ((EXACT_DUPLICATE, None), self)
      else if \<not> force \<and> find_similar_questions H (knowledge_base self) topic q_zh (6 / 10) \<noteq> []
      then ((SIMILAR_FOUND,
             Some (find_similar_questions H (knowledge_base self) topic q_zh (6 / 10))), self)
      else ((ADDED, None),
            store_entry (knowledge_base self) (topic_id_of H topic) td
              (new_entry H now q_zh q_en a_zh a_en diff tgs)))"
proof -
  have d: "topic_id_of H topic \<in> dom (topics (knowledge_base self))"
    using assms by blast
  show ?thesis
    unfolding add_question_def Let_def store_entry_def new_entry_def using assms d
    by (simp add: self_update_id)
qed

lemma add_question_new:
  assumes "topics (knowledge_base self) (topic_id_of H topic) = None"
  shows "add_question H now self topic q_zh q_en a_zh a_en diff tgs force =
     ((ADDED, None),
      store_entry (knowledge_base self) (topic_id_of H topic)
        \<lparr>topic_name = topic, created_at = now, questions = []\<rparr>
        (new_entry H now q_zh q_en a_zh a_en diff tgs))"
proof -
  have d: "topic_id_of H topic \<notin> dom (topics (knowledge_base self))"
    using assms by blast
  show ?thesis
    unfolding add_question_def Let_def store_entry_def new_entry_def using assms d
    by (simp add: find_similar_questions_eq)
qed

lemma store_entry_lookup:
  "topics (knowledge_base (store_entry kb tid td e)) tid' =
     (if tid' = tid then Some (td\<lparr>questions := questions td @ [e]\<rparr>) else topics kb tid')"
  by (simp add: store_entry_def)

lemma store_entry_file:
  "kb_file (store_entry kb tid td e) = Some (knowledge_base (store_entry kb tid td e))"
  by (simp add: store_entry_def)

lemma new_entry_hash:
  "question_hash (new_entry H now q_zh q_en a_zh a_en diff tgs) = question_hash_of H q_zh"
  by (simp add: new_entry_def)

lemma added_then_stored:
  assumes "fst (fst (add_question H now self topic q_zh q_en a_zh a_en diff tgs force)) = ADDED"
  shows "\<exists>td qa. topics (knowledge_base (snd (add_question H now self topic q_zh q_en a_zh a_en
                       diff tgs force))) (topic_id_of H topic) = Some td
          \<and> qa \<in> set (questions td) \<and> question_hash qa = question_hash_of H q_zh"
proof (cases "topics (knowledge_base self) (topic_id_of H topic)")
  case None
  show ?thesis unfolding add_question_new [OF None]
    by (simp add: store_entry_lookup new_entry_hash)
next
  case (Some td)
  have "snd (add_question H now self topic q_zh q_en a_zh a_en diff tgs force) =
      store_entry (knowledge_base self) (topic_id_of H topic) td
        (new_entry H now q_zh q_en a_zh a_en diff tgs)"
    using assms unfolding add_question_existing [OF Some] by (auto split: if_splits)
  then show ?thesis
    using new_entry_hash [of H now q_zh q_en a_zh a_en diff tgs]
    by (auto simp: store_entry_lookup)
qed


text \<open>
  A question that was added is an exact duplicate when it is submitted again under the
  same topic, whatever the other fields and the flag of the second call.
\<close>

lemma add_question_twice:
  assumes "fst (fst (add_question H now self topic q_zh q_en a_zh a_en diff tgs force)) = ADDED"
  shows "add_question H now' (snd (add_question H now self topic q_zh q_en a_zh a_en diff tgs force))
           topic q_zh q_en' a_zh' a_en' diff' tgs' force' =
         ((EXACT_DUPLICATE, None),
          snd (add_question H now self topic q_zh q_en a_zh a_en diff tgs force))"
proof -
  from added_then_stored [OF assms] obtain td qa where
    t: "topics (knowledge_base (snd (add_question H now self topic q_zh q_en a_zh a_en
          diff tgs force))) (topic_id_of H topic) = Some td"
    and q: "qa \<in> set (questions td)" "question_hash qa = question_hash_of H q_zh"
    by blast
  from q have "list_ex (\<lambda>qa. question_hash qa = question_hash_of H q_zh) (questions td)"
    by (auto simp: list_ex_iff)
  then show ?thesis
    unfolding add_question_existing [OF t] by simp
qed

subsection \<open>Theorems: deduplication gate\<close>

text \<open>
  C1. For every topic and question text, if a record stored under the topic already has
  the content digest of the incoming question, \<open>add_question\<close> returns
  \<open>EXACT_DUPLICATE\<close> with no list of matches and leaves the object, in memory and on
  file, as it was; the flag \<open>force\<close> is arbitrary, so this holds for both of its values.
\<close>

theorem add_question_exact_duplicate:
  assumes "topics (knowledge_base self) (topic_id_of H topic) = Some td"
    and "qa \<in> set (questions td)"
    and "question_hash qa = question_hash_of H q_zh"
  shows "add_question H now self topic q_zh q_en a_zh a_en diff tgs force =
           ((EXACT_DUPLICATE, None), self)"
proof -
  have "list_ex (\<lambda>qa. question_hash qa = question_hash_of H q_zh) (questions td)"
    using assms(2,3) by (auto simp: list_ex_iff)
  then show ?thesis
    unfolding add_question_existing [OF assms(1)] by simp
qed

theorem add_question_exact_duplicate_witness:
  "add_question example_digest example_time example_kb [83, 81, 76] [19968, 19968, 19969]
     [81] [] [65] ''medium'' None True = ((EXACT_DUPLICATE, None), example_kb)
   \<and> add_question example_digest example_time example_kb [83, 81, 76] [19968, 19968, 19969]
     [81] [] [65] ''medium'' None False = ((EXACT_DUPLICATE, None), example_kb)"
proof -
  have t: "topics (knowledge_base example_kb) (topic_id_of example_digest [83, 81, 76])
             = Some example_topic"
    by (simp add: example_kb_def topic_id_of_def example_digest_def)
  have m: "example_entry \<in> set (questions example_topic)"
    by (simp add: example_topic_def)
  have h: "question_hash example_entry = question_hash_of example_digest [19968, 19968, 19969]"
    by (simp add: example_entry_def question_hash_of_def example_digest_def)
  show ?thesis
    using add_question_exact_duplicate [OF t m h] by simp
qed

text \<open>
  C10. For every question text with no ideographic character (purely Latin text, for
  one), \<open>extract_keywords\<close> returns the empty set, so its similarity against every
  keyword set is 0, the search for similar questions finds nothing, and
  \<open>add_question\<close> never returns \<open>SIMILAR_FOUND\<close> for it, whatever the state and the
  flag: the only detection left is \<open>EXACT_DUPLICATE\<close>, returned exactly when a record
  stored under the topic has the digest of the text.
\<close>

theorem non_ideographic_never_similar:
  assumes "\<forall>c \<in> set q_zh. \<not> ideographic c"
  shows "extract_keywords q_zh = {}
     \<and> calculate_similarity (extract_keywords q_zh) K = 0
     \<and> calculate_similarity K (extract_keywords q_zh) = 0
     \<and> find_similar_questions H kb topic q_zh (6 / 10) = []
     \<and> fst (fst (add_question H now self topic q_zh q_en a_zh a_en diff tgs force))
           \<noteq> SIMILAR_FOUND
     \<and> (fst (fst (add_question H now self topic q_zh q_en a_zh a_en diff tgs force))
           = EXACT_DUPLICATE
         \<longleftrightarrow> (\<exists>td qa. topics (knowledge_base self) (topic_id_of H topic) = Some td
                  \<and> qa \<in> set (questions td)
                  \<and> question_hash qa = question_hash_of H q_zh))"
proof -
  have e: "extract_keywords q_zh = {}"
    using assms by (rule extract_keywords_no_ideograph)
  have f: "find_similar_questions H kb topic q_zh (6 / 10) = []" for kb
    using assms by (rule find_similar_no_ideograph) simp
  have s: "fst (fst (add_question H now self topic q_zh q_en a_zh a_en diff tgs force))
             \<noteq> SIMILAR_FOUND"
  proof (cases "topics (knowledge_base self) (topic_id_of H topic)")
    case None
    show ?thesis unfolding add_question_new [OF None] by simp
  next
    case (Some td)
    show ?thesis unfolding add_question_existing [OF Some] f by simp
  qed
  have d: "fst (fst (add_question H now self topic q_zh q_en a_zh a_en diff tgs force))
             = EXACT_DUPLICATE
           \<longleftrightarrow> (\<exists>td qa. topics (knowledge_base self) (topic_id_of H topic) = Some td
                  \<and> qa \<in> set (questions td)
                  \<and> question_hash qa = question_hash_of H q_zh)"
  proof (cases "topics (knowledge_base self) (topic_id_of H topic)")
    case None
    show ?thesis unfolding add_question_new [OF None] using None by simp
  next
    case (Some td)
    show ?thesis unfolding add_question_existing [OF Some] f using Some
      by (auto simp: list_ex_iff)
  qed
  from e f s d show ?thesis by (simp add: calculate_similarity_empty)
qed

theorem non_ideographic_never_similar_witness:
  "extract_keywords [71, 73, 76] = {}
   \<and> fst (fst (add_question example_digest example_time example_kb [83, 81, 76] [71, 73, 76]
        [81] [] [65] ''medium'' None False)) \<noteq> SIMILAR_FOUND
   \<and> fst (fst (add_question example_digest example_time example_kb [83, 81, 76] [71, 73, 76]
        [81] [] [65] ''medium'' None False)) = EXACT_DUPLICATE"
proof -
  have h: "\<forall>c \<in> set [71, 73, 76]. \<not> ideographic c"
    by (simp add: ideographic_def)
  have t: "topics (knowledge_base example_kb) (topic_id_of example_digest [83, 81, 76])
             = Some example_topic"
    by (simp add: example_kb_def topic_id_of_def example_digest_def)
  have m: "example_entry \<in> set (questions example_topic)"
    by (simp add: example_topic_def)
  have q: "question_hash example_entry = question_hash_of example_digest [71, 73, 76]"
    by (simp add: example_entry_def question_hash_of_def example_digest_def)
  from t m q have ex: "\<exists>td qa. topics (knowledge_base example_kb)
        (topic_id_of example_digest [83, 81, 76]) = Some td
      \<and> qa \<in> set (questions td)
      \<and> question_hash qa = question_hash_of example_digest [71, 73, 76]"
    by blast
  show ?thesis
    using h ex non_ideographic_never_similar [OF h, of "{}" example_digest
        "knowledge_base example_kb" "[83, 81, 76]" example_time example_kb "[81]" "[]" "[65]"
        "''medium''" None False]
    by blast
qed

lemma distinct_digests_store:
  assumes "distinct_digests kb" and "topics kb tid = Some td \<or> (topics kb tid = None \<and> questions td = [])"
    and "\<not> list_ex (\<lambda>qa. question_hash qa = question_hash e) (questions td)"
  shows "distinct_digests (knowledge_base (store_entry kb tid td e))"
  using assms unfolding distinct_digests_def
  by (auto simp: store_entry_lookup list_ex_iff)

lemma add_question_distinct:
  assumes "distinct_digests (knowledge_base self)"
    and "\<forall>d. kb_file self = Some d \<longrightarrow> distinct_digests d"
  shows "distinct_digests (knowledge_base
            (snd (add_question H now self topic q_zh q_en a_zh a_en diff tgs force)))
       \<and> (\<forall>d. kb_file (snd (add_question H now self topic q_zh q_en a_zh a_en diff tgs force))
                 = Some d \<longrightarrow> distinct_digests d)"
proof (cases "topics (knowledge_base self) (topic_id_of H topic)")
  case None
  have "distinct_digests (knowledge_base (store_entry (knowledge_base self) (topic_id_of H topic)
          \<lparr>topic_name = topic, created_at = now, questions = []\<rparr>
          (new_entry H now q_zh q_en a_zh a_en diff tgs)))"
    using assms(1) None by (intro distinct_digests_store) simp_all
  then show ?thesis unfolding add_question_new [OF None]
    by (simp add: store_entry_file)
next
  case (Some td)
  show ?thesis
  proof (cases "list_ex (\<lambda>qa. question_hash qa = question_hash_of H q_zh) (questions td)")
    case True
    then show ?thesis unfolding add_question_existing [OF Some] using assms by simp
  next
    case False
    then have "distinct_digests (knowledge_base (store_entry (knowledge_base self)
          (topic_id_of H topic) td (new_entry H now q_zh q_en a_zh a_en diff tgs)))"
      using assms(1) Some by (intro distinct_digests_store) (simp_all add: new_entry_hash)
    then show ?thesis unfolding add_question_existing [OF Some] using assms
      by (simp add: store_entry_file)
  qed
qed

text \<open>
  C9. In every state of the knowledge base reached from the empty one by any sequence of
  \<open>add_question\<close> calls, with any arguments and flags, no two records stored under the
  same topic share a content digest; the same holds of the document last written to
  the file.
\<close>

theorem reachable_distinct_digests:
  assumes "reachable H s"
  shows "(\<forall>tid td. topics (knowledge_base s) tid = Some td
            \<longrightarrow> distinct (map question_hash (questions td)))
       \<and> (\<forall>d tid td. kb_file s = Some d \<and> topics d tid = Some td
            \<longrightarrow> distinct (map question_hash (questions td)))"
proof -
  have "distinct_digests (knowledge_base s) \<and> (\<forall>d. kb_file s = Some d \<longrightarrow> distinct_digests d)"
    using assms
  proof (induction rule: reachable.induct)
    case (initial t0)
    show ?case by (simp add: distinct_digests_def)
  next
    case (step s now topic q_zh q_en a_zh a_en diff tgs force)
    then show ?case using add_question_distinct by blast
  qed
  then show ?thesis unfolding distinct_digests_def by blast
qed

theorem reachable_distinct_digests_witness:
  "reachable example_digest
     (snd (add_question example_digest example_time
        \<lparr>knowledge_base = \<lparr>topics = Map.empty, metadata_created_at = example_time\<rparr>,
         kb_file = None\<rparr>
        [83, 81, 76] [19968, 19968, 19969] [81] [] [65] ''medium'' None False))
   \<and> topics (knowledge_base (snd (add_question example_digest example_time
        \<lparr>knowledge_base = \<lparr>topics = Map.empty, metadata_created_at = example_time\<rparr>,
         kb_file = None\<rparr>
        [83, 81, 76] [19968, 19968, 19969] [81] [] [65] ''medium'' None False))) ''aaa''
       = Some example_topic
   \<and> distinct (map question_hash (questions example_topic))"
proof -
  let ?s0 = "\<lparr>knowledge_base = \<lparr>topics = Map.empty, metadata_created_at = example_time\<rparr>,
              kb_file = None\<rparr>"
  let ?s1 = "snd (add_question example_digest example_time ?s0
        [83, 81, 76] [19968, 19968, 19969] [81] [] [65] ''medium'' None False)"
  have r: "reachable example_digest ?s1"
    by (rule reachable.step) (rule reachable.initial)
  have n: "topics (knowledge_base ?s0) (topic_id_of example_digest [83, 81, 76]) = None"
    by simp
  have t: "topics (knowledge_base ?s1) ''aaa'' = Some example_topic"
    unfolding add_question_new [OF n]
    by (simp add: store_entry_lookup new_entry_def example_topic_def example_entry_def
        topic_id_of_def question_hash_of_def example_digest_def)
  show ?thesis
    using r t reachable_distinct_digests [OF r] by blast
qed

lemma sorted_desc_sort_key:
  "sorted_wrt (\<lambda>a b. similarity b \<le> similarity a) (sort_key (\<lambda>x. - similarity x) xs)"
proof -
  have "sorted (map (\<lambda>x. - similarity x) (sort_key (\<lambda>x. - similarity x) xs))"
    by (rule sorted_sort_key)
  then show ?thesis by (simp add: sorted_map)
qed

lemma sort_key_Nil_iff: "sort_key f xs = [] \<longleftrightarrow> xs = []"
proof -
  have "length (sort_key f xs) = length xs" by (rule length_sort)
  then show ?thesis by (metis length_0_conv)
qed

lemma calculate_similarity_jaccard:
  "calculate_similarity A B = of_nat (card (A \<inter> B)) / of_nat (card (A \<union> B))"
  by (auto simp: calculate_similarity_def Let_def)

text \<open>
  C2. For every call of \<open>add_question\<close> with \<open>force\<close> false where no record stored under
  the topic has the incoming digest and at least one stored question has a Jaccard
  similarity of at least 0.6 to the new question (0.6 itself included), the call returns
  \<open>SIMILAR_FOUND\<close> and leaves the object unchanged. The Jaccard similarity of two
  questions is the number of keywords they share divided by the number of keywords either
  has, written out below as the quotient of the two cardinalities. The list the call
  carries holds exactly the entries (question text, similarity, digest) of the stored
  questions at or above the threshold, is in descending order of similarity, and lists
  the entries of equal similarity in the order of the stored records.
\<close>

theorem add_question_similar_found:
  assumes "topics (knowledge_base self) (topic_id_of H topic) = Some td"
    and "\<forall>qa \<in> set (questions td). question_hash qa \<noteq> question_hash_of H q_zh"
    and "\<exists>qa \<in> set (questions td).
           6 / 10 \<le> (of_nat (card (extract_keywords q_zh \<inter> extract_keywords (question_zh qa))) :: rat)
                     / of_nat (card (extract_keywords q_zh \<union> extract_keywords (question_zh qa)))"
  shows "let jaccard = (\<lambda>qa.
               (of_nat (card (extract_keywords q_zh \<inter> extract_keywords (question_zh qa))) :: rat)
               / of_nat (card (extract_keywords q_zh \<union> extract_keywords (question_zh qa))));
             entry = (\<lambda>qa. \<lparr>question = question_zh qa, similarity = jaccard qa,
                              hash = question_hash qa\<rparr>)
         in \<exists>ms. add_question H now self topic q_zh q_en a_zh a_en diff tgs False =
                    ((SIMILAR_FOUND, Some ms), self)
              \<and> mset ms = mset (map entry (filter (\<lambda>qa. 6 / 10 \<le> jaccard qa) (questions td)))
              \<and> sorted_wrt (\<lambda>a b. similarity b \<le> similarity a) ms
              \<and> (\<forall>v. filter (\<lambda>m. similarity m = v) ms =
                       map entry (filter (\<lambda>qa. jaccard qa = v \<and> 6 / 10 \<le> v) (questions td)))"
proof -
  let ?J = "\<lambda>qa. (of_nat (card (extract_keywords q_zh \<inter> extract_keywords (question_zh qa))) :: rat)
               / of_nat (card (extract_keywords q_zh \<union> extract_keywords (question_zh qa)))"
  let ?entry = "\<lambda>qa. \<lparr>question = question_zh qa, similarity = ?J qa, hash = question_hash qa\<rparr>"
  let ?hits = "filter (\<lambda>qa. 6 / 10 \<le> ?J qa) (questions td)"
  let ?ms = "sort_key (\<lambda>x. - similarity x) (map ?entry ?hits)"
  have se: "similar_entry q_zh = ?entry"
    by (rule ext) (simp add: similar_entry_def calculate_similarity_jaccard)
  have fs: "find_similar_questions H (knowledge_base self) topic q_zh (6 / 10) = ?ms"
    unfolding find_similar_questions_eq assms(1) se by simp
  have nodup: "\<not> list_ex (\<lambda>qa. question_hash qa = question_hash_of H q_zh) (questions td)"
    using assms(2) by (simp add: list_ex_iff)
  have "?hits \<noteq> []"
    using assms(3) by (simp add: filter_empty_conv)
  then have ne: "?ms \<noteq> []"
    by (simp only: sort_key_Nil_iff map_is_Nil_conv not_False_eq_True)
  have res: "add_question H now self topic q_zh q_en a_zh a_en diff tgs False =
               ((SIMILAR_FOUND, Some ?ms), self)"
    unfolding add_question_existing [OF assms(1)] fs using nodup ne by simp
  have ms: "mset ?ms = mset (map ?entry ?hits)"
    by simp
  have srt: "sorted_wrt (\<lambda>a b. similarity b \<le> similarity a) ?ms"
    by (rule sorted_desc_sort_key)
  have stable: "filter (\<lambda>m. similarity m = v) ?ms =
      map ?entry (filter (\<lambda>qa. ?J qa = v \<and> 6 / 10 \<le> v) (questions td))" for v
  proof -
    have "filter (\<lambda>m. similarity m = v) ?ms =
        filter (\<lambda>m. - similarity m = - v) ?ms"
      by simp
    also have "\<dots> = filter (\<lambda>m. - similarity m = - v) (map ?entry ?hits)"
      by (rule sort_key_stable)
    also have "\<dots> = map ?entry (filter (\<lambda>qa. ?J qa = v) ?hits)"
      by (simp add: filter_map comp_def)
    also have "filter (\<lambda>qa. ?J qa = v) ?hits =
        filter (\<lambda>qa. ?J qa = v \<and> 6 / 10 \<le> v) (questions td)"
      by (auto intro!: filter_cong)
    finally show ?thesis .
  qed
  from res ms srt stable show ?thesis unfolding Let_def by blast
qed

lemma extract_keywords_example_stored:
  "extract_keywords [19968, 19968, 19969] =
     {[19968], [19969], [19968, 19968], [19968, 19969], [19968, 19968, 19969]}"
proof -
  have cs: "filter ideographic [19968, 19968, 19969] = [19968, 19968, 19969]"
    by (simp add: ideographic_def)
  show ?thesis
    unfolding extract_keywords_eq cs
    by (auto simp: windows_def stopwords_def upt_rec numeral_2_eq_2 numeral_3_eq_3)
qed

lemma extract_keywords_example_new:
  "extract_keywords [19968, 19969] = {[19968], [19969], [19968, 19969]}"
proof -
  have cs: "filter ideographic [19968, 19969] = [19968, 19969]"
    by (simp add: ideographic_def)
  show ?thesis
    unfolding extract_keywords_eq cs
    by (auto simp: windows_def stopwords_def upt_rec numeral_2_eq_2 numeral_3_eq_3)
qed

lemma extract_keywords_example_other:
  "extract_keywords [19968, 19969, 19970, 63] =
     {[19968], [19969], [19970], [19968, 19969], [19969, 19970], [19968, 19969, 19970]}"
proof -
  have cs: "filter ideographic [19968, 19969, 19970, 63] = [19968, 19969, 19970]"
    by (simp add: ideographic_def)
  show ?thesis
    unfolding extract_keywords_eq cs
    by (auto simp: windows_def stopwords_def upt_rec numeral_2_eq_2 numeral_3_eq_3)
qed

lemma extract_keywords_example_tie:
  "extract_keywords [19968, 19969, 19969, 63, 63] =
     {[19968], [19969], [19968, 19969], [19969, 19969], [19968, 19969, 19969]}"
proof -
  have cs: "filter ideographic [19968, 19969, 19969, 63, 63] = [19968, 19969, 19969]"
    by (simp add: ideographic_def)
  show ?thesis
    unfolding extract_keywords_eq cs
    by (auto simp: windows_def stopwords_def upt_rec numeral_2_eq_2 numeral_3_eq_3)
qed

lemma extract_keywords_example_same:
  "extract_keywords [19968, 45, 19969, 63, 63, 63] = {[19968], [19969], [19968, 19969]}"
proof -
  have cs: "filter ideographic [19968, 45, 19969, 63, 63, 63] = [19968, 19969]"
    by (simp add: ideographic_def)
  show ?thesis
    unfolding extract_keywords_eq cs
    by (auto simp: windows_def stopwords_def upt_rec numeral_2_eq_2 numeral_3_eq_3)
qed

lemma example_quotient_stored:
  "(of_nat (card (extract_keywords [19968, 19969] \<inter> extract_keywords [19968, 19968, 19969])) :: rat)
     / of_nat (card (extract_keywords [19968, 19969] \<union> extract_keywords [19968, 19968, 19969]))
   = 3 / 5"
proof -
  have i: "{[19968], [19969], [19968, 19969]} \<inter>
       {[19968], [19969], [19968, 19968], [19968, 19969], [19968, 19968, 19969]} =
       {[19968 :: nat], [19969], [19968, 19969]}"
    by auto
  have u: "{[19968], [19969], [19968, 19969]} \<union>
       {[19968], [19969], [19968, 19968], [19968, 19969], [19968, 19968, 19969]} =
       {[19968 :: nat], [19969], [19968, 19968], [19968, 19969], [19968, 19968, 19969]}"
    by auto
  show ?thesis
    unfolding extract_keywords_example_stored extract_keywords_example_new i u
    by simp
qed

lemma example_quotient_other:
  "(of_nat (card (extract_keywords [19968, 19969] \<inter> extract_keywords [19968, 19969, 19970, 63])) :: rat)
     / of_nat (card (extract_keywords [19968, 19969] \<union> extract_keywords [19968, 19969, 19970, 63]))
   = 1 / 2"
proof -
  have i: "{[19968], [19969], [19968, 19969]} \<inter>
       {[19968], [19969], [19970], [19968, 19969], [19969, 19970], [19968, 19969, 19970]} =
       {[19968 :: nat], [19969], [19968, 19969]}"
    by auto
  have u: "{[19968], [19969], [19968, 19969]} \<union>
       {[19968], [19969], [19970], [19968, 19969], [19969, 19970], [19968, 19969, 19970]} =
       {[19968 :: nat], [19969], [19970], [19968, 19969], [19969, 19970], [19968, 19969, 19970]}"
    by auto
  show ?thesis
    unfolding extract_keywords_example_other extract_keywords_example_new i u
    by simp
qed

lemma example_quotient_tie:
  "(of_nat (card (extract_keywords [19968, 19969] \<inter> extract_keywords [19968, 19969, 19969, 63, 63])) :: rat)
     / of_nat (card (extract_keywords [19968, 19969] \<union> extract_keywords [19968, 19969, 19969, 63, 63]))
   = 3 / 5"
proof -
  have i: "{[19968], [19969], [19968, 19969]} \<inter>
       {[19968], [19969], [19968, 19969], [19969, 19969], [19968, 19969, 19969]} =
       {[19968 :: nat], [19969], [19968, 19969]}"
    by auto
  have u: "{[19968], [19969], [19968, 19969]} \<union>
       {[19968], [19969], [19968, 19969], [19969, 19969], [19968, 19969, 19969]} =
       {[19968 :: nat], [19969], [19968, 19969], [19969, 19969], [19968, 19969, 19969]}"
    by auto
  show ?thesis
    unfolding extract_keywords_example_tie extract_keywords_example_new i u
    by simp
qed

lemma example_quotient_same:
  "(of_nat (card (extract_keywords [19968, 19969] \<inter> extract_keywords [19968, 45, 19969, 63, 63, 63])) :: rat)
     / of_nat (card (extract_keywords [19968, 19969] \<union> extract_keywords [19968, 45, 19969, 63, 63, 63]))
   = 1"
  unfolding extract_keywords_example_same extract_keywords_example_new
  by simp

text \<open>
  The example bank holds four questions under one topic. Against the new question
  U+4E00 U+4E01 their similarities are 3/5, 1/2, 3/5 and 1: the second is below the
  threshold and is left out, the fourth is listed first, and the first and third, which
  tie at the threshold, follow in their stored order.
\<close>

theorem add_question_similar_found_witness:
  "(of_nat (card (extract_keywords [19968, 19969] \<inter> extract_keywords [19968, 19969, 19970, 63])) :: rat)
     / of_nat (card (extract_keywords [19968, 19969] \<union> extract_keywords [19968, 19969, 19970, 63]))
   = 1 / 2
   \<and> add_question example_digest example_time example_bank [83, 81, 76] [19968, 19969]
       [81] [] [65] ''medium'' None False =
     ((SIMILAR_FOUND,
       Some [\<lparr>question = [19968, 45, 19969, 63, 63, 63], similarity = 1, hash = ''aaaaaa''\<rparr>,
             \<lparr>question = [19968, 19968, 19969], similarity = 3 / 5, hash = ''aaa''\<rparr>,
             \<lparr>question = [19968, 19969, 19969, 63, 63], similarity = 3 / 5, hash = ''aaaaa''\<rparr>]),
      example_bank)"
proof -
  let ?J = "\<lambda>qa. (of_nat (card (extract_keywords [19968, 19969] \<inter> extract_keywords (question_zh qa))) :: rat)
               / of_nat (card (extract_keywords [19968, 19969] \<union> extract_keywords (question_zh qa)))"
  let ?entry = "\<lambda>qa. \<lparr>question = question_zh qa, similarity = ?J qa, hash = question_hash qa\<rparr>"
  let ?L = "[\<lparr>question = [19968, 19968, 19969], similarity = 3 / 5, hash = ''aaa''\<rparr>,
             \<lparr>question = [19968, 19969, 19969, 63, 63], similarity = 3 / 5, hash = ''aaaaa''\<rparr>,
             \<lparr>question = [19968, 45, 19969, 63, 63, 63], similarity = 1, hash = ''aaaaaa''\<rparr>]"
  have qz: "question_zh (example_question q h) = q" "question_hash (example_question q h) = h"
    for q h
    by (simp_all add: example_question_def)
  have t: "topics (knowledge_base example_bank) (topic_id_of example_digest [83, 81, 76])
             = Some example_bank_topic"
    by (simp add: example_bank_def topic_id_of_def example_digest_def)
  have nd: "\<forall>qa \<in> set (questions example_bank_topic).
              question_hash qa \<noteq> question_hash_of example_digest [19968, 19969]"
    by (simp add: example_bank_topic_def qz question_hash_of_def example_digest_def)
  have sm: "\<exists>qa \<in> set (questions example_bank_topic). 6 / 10 \<le> ?J qa"
  proof (rule bexI [where x = "example_question [19968, 19968, 19969] ''aaa''"])
    show "6 / 10 \<le> ?J (example_question [19968, 19968, 19969] ''aaa'')"
      unfolding qz example_quotient_stored by simp
    show "example_question [19968, 19968, 19969] ''aaa'' \<in> set (questions example_bank_topic)"
      by (simp add: example_bank_topic_def)
  qed
  have hits: "map ?entry (filter (\<lambda>qa. 6 / 10 \<le> ?J qa) (questions example_bank_topic)) = ?L"
    unfolding example_bank_topic_def topic_data.select_convs filter.simps qz
      example_quotient_stored example_quotient_other example_quotient_tie example_quotient_same
    by (simp add: qz example_quotient_stored example_quotient_tie example_quotient_same)
  from add_question_similar_found [OF t nd sm, of example_time "[81]" "[]" "[65]" "''medium''" None]
  obtain ms where
    r: "add_question example_digest example_time example_bank [83, 81, 76] [19968, 19969]
          [81] [] [65] ''medium'' None False = ((SIMILAR_FOUND, Some ms), example_bank)"
    and m: "mset ms = mset (map ?entry (filter (\<lambda>qa. 6 / 10 \<le> ?J qa) (questions example_bank_topic)))"
    and s: "sorted_wrt (\<lambda>a b. similarity b \<le> similarity a) ms"
    and st: "\<And>v. filter (\<lambda>m. similarity m = v) ms =
               map ?entry (filter (\<lambda>qa. ?J qa = v \<and> 6 / 10 \<le> v) (questions example_bank_topic))"
    unfolding Let_def by blast
  have m': "mset ms = mset ?L"
    using m unfolding hits .
  have st1: "filter (\<lambda>m. similarity m = 1) ms =
      [\<lparr>question = [19968, 45, 19969, 63, 63, 63], similarity = 1, hash = ''aaaaaa''\<rparr>]"
    unfolding st example_bank_topic_def topic_data.select_convs filter.simps qz
      example_quotient_stored example_quotient_other example_quotient_tie example_quotient_same
    by (simp add: qz example_quotient_stored example_quotient_tie example_quotient_same)
  have st2: "filter (\<lambda>m. similarity m = 3 / 5) ms =
      [\<lparr>question = [19968, 19968, 19969], similarity = 3 / 5, hash = ''aaa''\<rparr>,
       \<lparr>question = [19968, 19969, 19969, 63, 63], similarity = 3 / 5, hash = ''aaaaa''\<rparr>]"
    unfolding st example_bank_topic_def topic_data.select_convs filter.simps qz
      example_quotient_stored example_quotient_other example_quotient_tie example_quotient_same
    by (simp add: qz example_quotient_stored example_quotient_tie example_quotient_same)
  have "sort_key (\<lambda>m. - similarity m) ?L = ms"
  proof (rule properties_for_sort_key)
    show "mset ms = mset ?L" by (rule m')
  next
    fix k assume "k \<in> set ms"
    then have "k \<in> set ?L" using m' by (metis set_mset_mset)
    then have "similarity k = 1 \<or> similarity k = 3 / 5" by auto
    then show "filter (\<lambda>x. - similarity k = - similarity x) ms =
        filter (\<lambda>x. - similarity k = - similarity x) ?L"
    proof
      assume k: "similarity k = 1"
      have "filter (\<lambda>x. - similarity k = - similarity x) ms = filter (\<lambda>m. similarity m = 1) ms"
        unfolding k by (rule filter_cong) auto
      then show ?thesis unfolding st1 k by simp
    next
      assume k: "similarity k = 3 / 5"
      have "filter (\<lambda>x. - similarity k = - similarity x) ms = filter (\<lambda>m. similarity m = 3 / 5) ms"
        unfolding k by (rule filter_cong) auto
      then show ?thesis unfolding st2 k by simp
    qed
  next
    show "sorted (map (\<lambda>m. - similarity m) ms)"
      using s by (simp add: sorted_map)
  qed
  then have "ms = [\<lparr>question = [19968, 45, 19969, 63, 63, 63], similarity = 1, hash = ''aaaaaa''\<rparr>,
             \<lparr>question = [19968, 19968, 19969], similarity = 3 / 5, hash = ''aaa''\<rparr>,
             \<lparr>question = [19968, 19969, 19969, 63, 63], similarity = 3 / 5, hash = ''aaaaa''\<rparr>]"
    by simp
  with r example_quotient_other show ?thesis by simp
qed

subsection \<open>Auxiliary facts: review scheduling\<close>

lemma schedule_loop:
  "fold (\<lambda>interval recs.
           recs\<lparr>review_schedule := review_schedule recs @
             [\<lparr>review_date = add_days ts interval, r_topic = tp, r_question_zh = qz,
               r_question_en = qe, r_mastery_level = ml, interval_days = interval,
               completed = False\<rparr>]\<rparr>) ivs recs =
   recs\<lparr>review_schedule := review_schedule recs @
     map (\<lambda>interval. \<lparr>review_date = add_days ts interval, r_topic = tp, r_question_zh = qz,
               r_question_en = qe, r_mastery_level = ml, interval_days = interval,
               completed = False\<rparr>) ivs\<rparr>"
  by (induction ivs arbitrary: recs) simp_all

lemma schedule_reviews_eq:
  "schedule_reviews recs ev =
     recs\<lparr>review_schedule := review_schedule recs @
            map (review_of ev) (intervals_of (s_mastery_level ev))\<rparr>"
  unfolding schedule_reviews_def Let_def schedule_loop
  by (simp add: review_of_def intervals_of_def)

lemma length_intervals_of: "length (intervals_of m) = 5"
  by (simp add: intervals_of_def)

subsection \<open>Theorems: review scheduler\<close>

text \<open>
  C4. For every Learning Session Event, scheduling its reviews appends exactly 5 Review
  Obligations to the stored schedule and changes nothing else. Their intervals are, in
  this order, those of the list of the event's tier (excellent 1, 3, 7, 15, 30; good
  1, 2, 5, 10, 20; fair 1, 2, 4, 7, 14; poor, and any other label, 1, 1, 3, 5, 10 days).
  Each is due at the event's timestamp plus its interval (same time of day), carries
  the event's topic, its two question texts and its mastery tier, and is not completed.
\<close>

theorem schedule_reviews_batch:
  "\<exists>batch. schedule_reviews recs ev = recs\<lparr>review_schedule := review_schedule recs @ batch\<rparr>
     \<and> length batch = 5
     \<and> map interval_days batch =
         (if s_mastery_level ev = ''excellent'' then [1, 3, 7, 15, 30]
          else if s_mastery_level ev = ''good'' then [1, 2, 5, 10, 20]
          else if s_mastery_level ev = ''fair'' then [1, 2, 4, 7, 14]
          else [1, 1, 3, 5, 10])
     \<and> (\<forall>r \<in> set batch.
           dt_date (review_date r) = dt_date (s_timestamp ev) + interval_days r
         \<and> dt_time (review_date r) = dt_time (s_timestamp ev)
         \<and> r_topic r = s_topic ev
         \<and> r_question_zh r = s_question_zh ev
         \<and> r_question_en r = s_question_en ev
         \<and> r_mastery_level r = s_mastery_level ev
         \<and> \<not> completed r)"
proof -
  let ?batch = "map (review_of ev) (intervals_of (s_mastery_level ev))"
  have a: "schedule_reviews recs ev = recs\<lparr>review_schedule := review_schedule recs @ ?batch\<rparr>"
    by (rule schedule_reviews_eq)
  have b: "length ?batch = 5"
    by (simp add: length_intervals_of)
  have c: "map interval_days ?batch =
         (if s_mastery_level ev = ''excellent'' then [1, 3, 7, 15, 30]
          else if s_mastery_level ev = ''good'' then [1, 2, 5, 10, 20]
          else if s_mastery_level ev = ''fair'' then [1, 2, 4, 7, 14]
          else [1, 1, 3, 5, 10])"
    by (simp add: comp_def review_of_def intervals_of_def)
  have d: "\<forall>r \<in> set ?batch.
           dt_date (review_date r) = dt_date (s_timestamp ev) + interval_days r
         \<and> dt_time (review_date r) = dt_time (s_timestamp ev)
         \<and> r_topic r = s_topic ev
         \<and> r_question_zh r = s_question_zh ev
         \<and> r_question_en r = s_question_en ev
         \<and> r_mastery_level r = s_mastery_level ev
         \<and> \<not> completed r"
    by (auto simp: review_of_def add_days_def)
  from a b c d show ?thesis by blast
qed

theorem schedule_reviews_batch_witness:
  "length (review_schedule (schedule_reviews example_records example_session)) = 5
   \<and> map interval_days (review_schedule (schedule_reviews example_records example_session)) =
      [1, 1, 3, 5, 10]
   \<and> map (\<lambda>r. dt_date (review_date r))
        (review_schedule (schedule_reviews example_records example_session)) =
      [739001, 739001, 739003, 739005, 739010]
   \<and> map completed (review_schedule (schedule_reviews example_records example_session)) =
      [False, False, False, False, False]"
proof -
  from schedule_reviews_batch [of example_records example_session]
  obtain batch where
    s: "schedule_reviews example_records example_session =
          example_records\<lparr>review_schedule := review_schedule example_records @ batch\<rparr>"
    and l: "length batch = 5"
    and i: "map interval_days batch =
         (if s_mastery_level example_session = ''excellent'' then [1, 3, 7, 15, 30]
          else if s_mastery_level example_session = ''good'' then [1, 2, 5, 10, 20]
          else if s_mastery_level example_session = ''fair'' then [1, 2, 4, 7, 14]
          else [1, 1, 3, 5, 10])"
    and p: "\<forall>r \<in> set batch.
           dt_date (review_date r) = dt_date (s_timestamp example_session) + interval_days r
         \<and> dt_time (review_date r) = dt_time (s_timestamp example_session)
         \<and> r_topic r = s_topic example_session
         \<and> r_question_zh r = s_question_zh example_session
         \<and> r_question_en r = s_question_en example_session
         \<and> r_mastery_level r = s_mastery_level example_session
         \<and> \<not> completed r"
    by blast
  have b: "review_schedule (schedule_reviews example_records example_session) = batch"
    unfolding s by (simp add: example_records_def)
  have iv: "map interval_days batch = [1, 1, 3, 5, 10]"
    using i by (simp add: example_session_def)
  have dates: "map (\<lambda>r. dt_date (review_date r)) batch =
      map (\<lambda>r. 739000 + interval_days r) batch"
    using p by (simp add: example_session_def)
  also have "\<dots> = map (\<lambda>n. 739000 + n) (map interval_days batch)"
    by (simp add: comp_def)
  also have "\<dots> = [739001, 739001, 739003, 739005, 739010]"
    unfolding iv by simp
  finally have d: "map (\<lambda>r. dt_date (review_date r)) batch =
      [739001, 739001, 739003, 739005, 739010]" .
  have "map completed batch = map (\<lambda>r. False) batch"
    using p by simp
  also have "\<dots> = replicate (length batch) False"
    by (simp add: map_replicate_const)
  also have "\<dots> = [False, False, False, False, False]"
    unfolding l by (simp add: numeral_eq_Suc)
  finally have c: "map completed batch = [False, False, False, False, False]" .
  show ?thesis unfolding b using l iv d c by simp
qed

lemma pending_loop:
  "fold (\<lambda>r pending.
           if \<not> completed r
           then (if dt_date (review_date r) \<le> dt_date date then pending @ [r] else pending)
           else pending) rs acc =
   acc @ filter (\<lambda>r. \<not> completed r \<and> dt_date (review_date r) \<le> dt_date date) rs"
  by (induction rs arbitrary: acc) simp_all

text \<open>
  C6. For every stored schedule and query date, \<open>get_pending_reviews\<close> returns exactly
  the obligations that are not completed and whose due day is on or before the day of
  the query date (the times of day are not compared), in the stored order; with no
  query date given, the current date is used.
\<close>

theorem get_pending_reviews_filter:
  "get_pending_reviews now recs (Some date) =
     filter (\<lambda>r. \<not> completed r \<and> dt_date (review_date r) \<le> dt_date date) (review_schedule recs)
   \<and> get_pending_reviews now recs None =
     filter (\<lambda>r. \<not> completed r \<and> dt_date (review_date r) \<le> dt_date now) (review_schedule recs)"
  unfolding get_pending_reviews_def Let_def
  by (simp add: pending_loop)


theorem get_pending_reviews_filter_witness:
  "map r_question_zh
     (get_pending_reviews \<lparr>dt_date = 739005, dt_time = 0\<rparr> example_schedule
        (Some \<lparr>dt_date = 739001, dt_time = 100\<rparr>)) = [[19968], [19971]]
   \<and> map r_question_zh
     (get_pending_reviews \<lparr>dt_date = 739005, dt_time = 0\<rparr> example_schedule None) =
       [[19968], [19970], [19971]]"
  using get_pending_reviews_filter [of "\<lparr>dt_date = 739005, dt_time = 0\<rparr>" example_schedule
      "\<lparr>dt_date = 739001, dt_time = 100\<rparr>"]
  by (simp add: example_schedule_def)

subsection \<open>Auxiliary facts: statistics\<close>

lemma count_ones: "sum_list (map (\<lambda>s. 1 :: nat) xs) = length xs"
  by (induction xs) simp_all

lemma add_score_keys:
  "map fst (add_score ts t s) = (if t \<in> set (map fst ts) then map fst ts else map fst ts @ [t])"
  by (induction ts t s rule: add_score.induct) auto

lemma add_score_lookup:
  "map_of (add_score ts t s) k =
     (if k = t then Some ((case map_of ts t of None \<Rightarrow> [] | Some v \<Rightarrow> v) @ [s])
      else map_of ts k)"
  by (induction ts t s rule: add_score.induct) auto

lemma add_score_distinct:
  "distinct (map fst ts) \<Longrightarrow> distinct (map fst (add_score ts t s))"
  by (simp add: add_score_keys)

lemma add_score_key_set:
  "set (map fst (add_score ts t s)) = insert t (set (map fst ts))"
  unfolding add_score_keys by auto

lemma group_keys:
  "set (map fst (fold (\<lambda>s ts. add_score ts (s_topic s) (s_score s)) ss ts)) =
     set (map fst ts) \<union> s_topic ` set ss"
proof (induction ss arbitrary: ts)
  case Nil
  show ?case by simp
next
  case (Cons s ss)
  have "set (map fst (fold (\<lambda>s ts. add_score ts (s_topic s) (s_score s)) (s # ss) ts)) =
      set (map fst (add_score ts (s_topic s) (s_score s))) \<union> s_topic ` set ss"
    using Cons.IH [of "add_score ts (s_topic s) (s_score s)"] by simp
  also have "\<dots> = set (map fst ts) \<union> s_topic ` set (s # ss)"
    unfolding add_score_key_set by auto
  finally show ?case .
qed

lemma group_distinct:
  "distinct (map fst ts) \<Longrightarrow>
   distinct (map fst (fold (\<lambda>s ts. add_score ts (s_topic s) (s_score s)) ss ts))"
  by (induction ss arbitrary: ts) (simp_all add: add_score_distinct)

lemma group_lookup:
  "map_of (fold (\<lambda>s ts. add_score ts (s_topic s) (s_score s)) ss ts) k =
     (if k \<in> s_topic ` set ss
      then Some ((case map_of ts k of None \<Rightarrow> [] | Some v \<Rightarrow> v) @ topic_scores_of ss k)
      else map_of ts k)"
proof (induction ss arbitrary: ts)
  case Nil
  show ?case by simp
next
  case (Cons s ss)
  have e: "k \<notin> s_topic ` set ss \<Longrightarrow> filter (\<lambda>s. s_topic s = k) ss = []"
    by (auto simp: filter_empty_conv)
  show ?case
    by (simp add: Cons.IH add_score_lookup topic_scores_of_def e)
qed

lemma group_entries:
  assumes "(t, sc) \<in> set (fold (\<lambda>s ts. add_score ts (s_topic s) (s_score s)) ss [])"
  shows "t \<in> s_topic ` set ss \<and> sc = topic_scores_of ss t"
proof -
  let ?g = "fold (\<lambda>s ts. add_score ts (s_topic s) (s_score s)) ss []"
  have d: "distinct (map fst ?g)" by (rule group_distinct) simp
  from assms d have "map_of ?g t = Some sc" by simp
  then show ?thesis
    unfolding group_lookup by (simp split: if_splits)
qed

lemma weak_loop:
  "fold (\<lambda>(topic, scores) acc.
           if of_int (sum_list scores) / of_nat (length scores) < (7 :: rat)
           then acc @ [\<lparr>w_topic = topic,
                         w_average_score = rnd (of_int (sum_list scores) / of_nat (length scores)),
                         attempts = length scores\<rparr>]
           else acc) g acc0 =
   acc0 @ map (\<lambda>(topic, scores). \<lparr>w_topic = topic, w_average_score = rnd (mean_score scores),
                                    attempts = length scores\<rparr>)
            (filter (\<lambda>(topic, scores). mean_score scores < 7) g)"
  by (induction g arbitrary: acc0) (auto simp: mean_score_def Let_def)


lemma update_statistics_eq:
  assumes "learning_sessions recs \<noteq> []"
  shows "stats (update_statistics rnd recs) =
     \<lparr>total_questions = length (learning_sessions recs),
      correct_answers = length (filter (\<lambda>s. 7 \<le> s_score s) (learning_sessions recs)),
      average_score = rnd (mean_score (map s_score (learning_sessions recs))),
      weak_topics = sort_key w_average_score
        (map (\<lambda>(topic, scores). \<lparr>w_topic = topic, w_average_score = rnd (mean_score scores),
                                    attempts = length scores\<rparr>)
           (filter (\<lambda>(topic, scores). mean_score scores < 7)
              (fold (\<lambda>s ts. add_score ts (s_topic s) (s_score s)) (learning_sessions recs) [])))\<rparr>"
  using assms unfolding update_statistics_def Let_def weak_loop count_ones
  by (simp add: mean_score_def)

lemma weak_entries:
  assumes "w \<in> set (map (\<lambda>(topic, scores). \<lparr>w_topic = topic,
                 w_average_score = rnd (mean_score scores), attempts = length scores\<rparr>)
           (filter (\<lambda>(topic, scores). mean_score scores < 7)
              (fold (\<lambda>s ts. add_score ts (s_topic s) (s_score s)) ss [])))"
  shows "w_topic w \<in> s_topic ` set ss
       \<and> mean_score (topic_scores_of ss (w_topic w)) < 7
       \<and> w_average_score w = rnd (mean_score (topic_scores_of ss (w_topic w)))
       \<and> attempts w = length (topic_scores_of ss (w_topic w))"
proof -
  from assms obtain t sc where
    m: "(t, sc) \<in> set (fold (\<lambda>s ts. add_score ts (s_topic s) (s_score s)) ss [])"
    and p: "mean_score sc < 7"
    and w: "w = \<lparr>w_topic = t, w_average_score = rnd (mean_score sc), attempts = length sc\<rparr>"
    by auto
  from group_entries [OF m] have "t \<in> s_topic ` set ss" and "sc = topic_scores_of ss t"
    by simp_all
  with p w show ?thesis by simp
qed

lemma weak_topics_complete:
  assumes "t \<in> s_topic ` set ss" and "mean_score (topic_scores_of ss t) < 7"
  shows "t \<in> w_topic ` set (map (\<lambda>(topic, scores). \<lparr>w_topic = topic,
                 w_average_score = rnd (mean_score scores), attempts = length scores\<rparr>)
           (filter (\<lambda>(topic, scores). mean_score scores < 7)
              (fold (\<lambda>s ts. add_score ts (s_topic s) (s_score s)) ss [])))"
proof -
  let ?g = "fold (\<lambda>s ts. add_score ts (s_topic s) (s_score s)) ss []"
  have "map_of ?g t = Some (topic_scores_of ss t)"
    unfolding group_lookup using assms(1) by simp
  then have "(t, topic_scores_of ss t) \<in> set ?g"
    by (rule map_of_SomeD)
  with assms(2) show ?thesis
    by (force simp: image_iff)
qed

lemma weak_topics_distinct:
  "distinct (map w_topic (map (\<lambda>(topic, scores). \<lparr>w_topic = topic,
                 w_average_score = rnd (mean_score scores), attempts = length scores\<rparr>)
           (filter (\<lambda>(topic, scores). mean_score scores < 7)
              (fold (\<lambda>s ts. add_score ts (s_topic s) (s_score s)) ss []))))"
proof -
  let ?g = "fold (\<lambda>s ts. add_score ts (s_topic s) (s_score s)) ss []"
  have d: "distinct (map fst ?g)" by (rule group_distinct) simp
  have e: "map w_topic (map (\<lambda>(topic, scores). \<lparr>w_topic = topic,
                 w_average_score = rnd (mean_score scores), attempts = length scores\<rparr>)
           (filter (\<lambda>(topic, scores). mean_score scores < 7) ?g)) =
        map fst (filter (\<lambda>(topic, scores). mean_score scores < 7) ?g)"
    by (simp add: comp_def case_prod_beta)
  show ?thesis unfolding e using d by (rule distinct_map_filter)
qed


lemma distinct_map_sort_key: "distinct (map f (sort_key k xs)) = distinct (map f xs)"
proof -
  have "mset (map f (sort_key k xs)) = mset (map f xs)" by simp
  then show ?thesis by (rule mset_eq_imp_distinct_iff)
qed

lemma statistics_example:
  assumes "learning_sessions recs = [e1, e2, e3]"
    and "s_score e1 = 9" and "s_score e2 = 3" and "s_score e3 = 3"
    and "s_topic e2 = s_topic e3" and "s_topic e1 \<noteq> s_topic e2"
    and "rnd 5 = 5" and "rnd 3 = 3"
  shows "stats (update_statistics rnd recs) =
     \<lparr>total_questions = 3, correct_answers = 1, average_score = 5,
      weak_topics = [\<lparr>w_topic = s_topic e2, w_average_score = 3, attempts = 2\<rparr>]\<rparr>"
proof -
  have ne: "learning_sessions recs \<noteq> []" using assms(1) by simp
  have g: "fold (\<lambda>s ts. add_score ts (s_topic s) (s_score s)) [e1, e2, e3] [] =
      [(s_topic e1, [9]), (s_topic e2, [3, 3])]"
    using assms(2-6) by simp
  have m1: "mean_score [9] = 9" by (simp add: mean_score_def)
  have m2: "mean_score [3, 3] = 3" by (simp add: mean_score_def)
  have m3: "mean_score [9, 3, 3] = 5" by (simp add: mean_score_def)
  show ?thesis
    unfolding update_statistics_eq [OF ne] assms(1) g
    using assms(2-4,7,8) by (simp add: m1 m2 m3)
qed

subsection \<open>Theorems: statistics aggregator\<close>

text \<open>
  C7 (as amended). For every non-empty event log, the recomputed rollup has total = number
  of events, acceptable count = number of events with score at least 7, and average = the
  mean of all scores rounded to one decimal place. Its weak-topic list holds, once each,
  exactly the topics whose (unrounded) mean score is below 7, each with its rounded mean
  and its number of attempts, in ascending order of the rounded mean the entries carry.
  In particular, three events with scores 9, 3, 3 on topics A, B, B (A and B different)
  give average 5.0, acceptable count 1 and the weak-topic list [(B, 3.0, 2)]; the
  rounding leaves 5.0 and 3.0 as they are.
\<close>

theorem update_statistics_rollup:
  assumes "learning_sessions recs \<noteq> []"
  shows "total_questions (stats (update_statistics rnd recs)) = length (learning_sessions recs)
     \<and> correct_answers (stats (update_statistics rnd recs)) =
         length (filter (\<lambda>s. 7 \<le> s_score s) (learning_sessions recs))
     \<and> average_score (stats (update_statistics rnd recs)) =
         rnd (mean_score (map s_score (learning_sessions recs)))
     \<and> set (map w_topic (weak_topics (stats (update_statistics rnd recs)))) =
         {t \<in> s_topic ` set (learning_sessions recs).
            mean_score (topic_scores_of (learning_sessions recs) t) < 7}
     \<and> distinct (map w_topic (weak_topics (stats (update_statistics rnd recs))))
     \<and> (\<forall>w \<in> set (weak_topics (stats (update_statistics rnd recs))).
           w_average_score w = rnd (mean_score (topic_scores_of (learning_sessions recs) (w_topic w)))
         \<and> attempts w = length (filter (\<lambda>s. s_topic s = w_topic w) (learning_sessions recs)))
     \<and> sorted (map w_average_score (weak_topics (stats (update_statistics rnd recs))))
     \<and> (\<forall>e1 e2 e3.
           learning_sessions recs = [e1, e2, e3]
         \<and> s_score e1 = 9 \<and> s_score e2 = 3 \<and> s_score e3 = 3
         \<and> s_topic e2 = s_topic e3 \<and> s_topic e1 \<noteq> s_topic e2
         \<and> rnd 5 = 5 \<and> rnd 3 = 3
         \<longrightarrow> stats (update_statistics rnd recs) =
               \<lparr>total_questions = 3, correct_answers = 1, average_score = 5,
                weak_topics = [\<lparr>w_topic = s_topic e2, w_average_score = 3, attempts = 2\<rparr>]\<rparr>)"
proof -
  let ?ss = "learning_sessions recs"
  let ?W = "map (\<lambda>(topic, scores). \<lparr>w_topic = topic, w_average_score = rnd (mean_score scores),
                                    attempts = length scores\<rparr>)
           (filter (\<lambda>(topic, scores). mean_score scores < 7)
              (fold (\<lambda>s ts. add_score ts (s_topic s) (s_score s)) ?ss []))"
  have wk: "weak_topics (stats (update_statistics rnd recs)) = sort_key w_average_score ?W"
    unfolding update_statistics_eq [OF assms] by simp
  have a: "total_questions (stats (update_statistics rnd recs)) = length ?ss"
    unfolding update_statistics_eq [OF assms] by simp
  have b: "correct_answers (stats (update_statistics rnd recs)) =
         length (filter (\<lambda>s. 7 \<le> s_score s) ?ss)"
    unfolding update_statistics_eq [OF assms] by simp
  have c: "average_score (stats (update_statistics rnd recs)) =
         rnd (mean_score (map s_score ?ss))"
    unfolding update_statistics_eq [OF assms] by simp
  have d: "set (map w_topic (weak_topics (stats (update_statistics rnd recs)))) =
         {t \<in> s_topic ` set ?ss. mean_score (topic_scores_of ?ss t) < 7}"
  proof -
    have "set (map w_topic (sort_key w_average_score ?W)) = w_topic ` set ?W"
      by simp
    also have "\<dots> = {t \<in> s_topic ` set ?ss. mean_score (topic_scores_of ?ss t) < 7}"
    proof (intro set_eqI iffI)
      fix t assume "t \<in> w_topic ` set ?W"
      then obtain w where "w \<in> set ?W" and "t = w_topic w" by blast
      then show "t \<in> {t \<in> s_topic ` set ?ss. mean_score (topic_scores_of ?ss t) < 7}"
        using weak_entries [of w rnd ?ss] by simp
    next
      fix t assume "t \<in> {t \<in> s_topic ` set ?ss. mean_score (topic_scores_of ?ss t) < 7}"
      then show "t \<in> w_topic ` set ?W"
        using weak_topics_complete [of t ?ss rnd] by simp
    qed
    finally show ?thesis unfolding wk .
  qed
  have e: "distinct (map w_topic (weak_topics (stats (update_statistics rnd recs))))"
    unfolding wk distinct_map_sort_key by (rule weak_topics_distinct)
  have f: "\<forall>w \<in> set (weak_topics (stats (update_statistics rnd recs))).
           w_average_score w = rnd (mean_score (topic_scores_of ?ss (w_topic w)))
         \<and> attempts w = length (filter (\<lambda>s. s_topic s = w_topic w) ?ss)"
  proof
    fix w assume "w \<in> set (weak_topics (stats (update_statistics rnd recs)))"
    then have "w \<in> set ?W" unfolding wk by simp
    from weak_entries [OF this]
    show "w_average_score w = rnd (mean_score (topic_scores_of ?ss (w_topic w)))
         \<and> attempts w = length (filter (\<lambda>s. s_topic s = w_topic w) ?ss)"
      by (simp add: topic_scores_of_def)
  qed
  have g: "sorted (map w_average_score (weak_topics (stats (update_statistics rnd recs))))"
    unfolding wk by (rule sorted_sort_key)
  have h: "\<forall>e1 e2 e3.
           learning_sessions recs = [e1, e2, e3]
         \<and> s_score e1 = 9 \<and> s_score e2 = 3 \<and> s_score e3 = 3
         \<and> s_topic e2 = s_topic e3 \<and> s_topic e1 \<noteq> s_topic e2
         \<and> rnd 5 = 5 \<and> rnd 3 = 3
         \<longrightarrow> stats (update_statistics rnd recs) =
               \<lparr>total_questions = 3, correct_answers = 1, average_score = 5,
                weak_topics = [\<lparr>w_topic = s_topic e2, w_average_score = 3, attempts = 2\<rparr>]\<rparr>"
    using statistics_example [of recs _ _ _ rnd] by blast
  from a b c d e f g h show ?thesis by blast
qed


lemma example_round_values: "example_round 5 = 5" "example_round 3 = 3"
  by (simp_all add: example_round_def)

theorem update_statistics_rollup_witness:
  "stats (update_statistics example_round
     (example_records\<lparr>learning_sessions :=
        [example_event [65] 9, example_event [66] 3, example_event [66] 3]\<rparr>)) =
   \<lparr>total_questions = 3, correct_answers = 1, average_score = 5,
    weak_topics = [\<lparr>w_topic = [66], w_average_score = 3, attempts = 2\<rparr>]\<rparr>"
proof -
  let ?recs = "example_records\<lparr>learning_sessions :=
        [example_event [65] 9, example_event [66] 3, example_event [66] 3]\<rparr>"
  have ne: "learning_sessions ?recs \<noteq> []" by simp
  have hyp: "learning_sessions ?recs = [example_event [65] 9, example_event [66] 3, example_event [66] 3]
      \<and> s_score (example_event [65] 9) = 9 \<and> s_score (example_event [66] 3) = 3
      \<and> s_score (example_event [66] 3) = 3
      \<and> s_topic (example_event [66] 3) = s_topic (example_event [66] 3)
      \<and> s_topic (example_event [65] 9) \<noteq> s_topic (example_event [66] 3)
      \<and> example_round 5 = 5 \<and> example_round 3 = 3"
    by (simp add: example_event_def example_round_values)
  from update_statistics_rollup [OF ne, of example_round] hyp
  have "stats (update_statistics example_round ?recs) =
     \<lparr>total_questions = 3, correct_answers = 1, average_score = 5,
      weak_topics = [\<lparr>w_topic = s_topic (example_event [66] 3), w_average_score = 3,
                      attempts = 2\<rparr>]\<rparr>"
    by blast
  then show ?thesis by (simp add: example_event_def)
qed

lemma example_round_thirds:
  "example_round (10 / 3) = 33 / 10" "example_round (23 / 7) = 33 / 10"
  by (simp_all add: example_round_def round_def floor_eq_iff)

text \<open>
  C7 as stated, with the list in ascending order of the per-topic mean, fails on the log
  of topic A with scores 3, 3, 4 followed by topic B with scores 3, 3, 3, 3, 3, 4, 4. The
  means are 10/3 and 23/7, both below 7 and both rounded to 3.3, so the sort on the
  rounded value leaves A before B although the mean of B is the smaller one. The
  rounding used here agrees with \<^verbatim>\<open>round(x, 1)\<close> on both means, neither being halfway
  between two values with one decimal.
\<close>

theorem update_statistics_rounded_order_counterexample:
  "weak_topics (stats (update_statistics example_round
      (example_records\<lparr>learning_sessions := example_tie_log\<rparr>))) =
     [\<lparr>w_topic = [65], w_average_score = 33 / 10, attempts = 3\<rparr>,
      \<lparr>w_topic = [66], w_average_score = 33 / 10, attempts = 7\<rparr>]
   \<and> mean_score (topic_scores_of example_tie_log [65]) = 10 / 3
   \<and> mean_score (topic_scores_of example_tie_log [66]) = 23 / 7
   \<and> mean_score (topic_scores_of example_tie_log [66])
       < mean_score (topic_scores_of example_tie_log [65])"
proof -
  let ?recs = "example_records\<lparr>learning_sessions := example_tie_log\<rparr>"
  have ne: "learning_sessions ?recs \<noteq> []"
    by (simp add: example_tie_log_def)
  have ev: "s_topic (example_event t n) = t" "s_score (example_event t n) = n" for t n
    by (simp_all add: example_event_def)
  have g: "fold (\<lambda>s ts. add_score ts (s_topic s) (s_score s)) example_tie_log [] =
      [([65], [3, 3, 4]), ([66], [3, 3, 3, 3, 3, 4, 4])]"
    by (simp add: example_tie_log_def ev)
  have m1: "mean_score [3, 3, 4] = 10 / 3" by (simp add: mean_score_def)
  have m2: "mean_score [3, 3, 3, 3, 3, 4, 4] = 23 / 7" by (simp add: mean_score_def)
  have ls: "learning_sessions ?recs = example_tie_log" by simp
  have w: "weak_topics (stats (update_statistics example_round ?recs)) =
     [\<lparr>w_topic = [65], w_average_score = 33 / 10, attempts = 3\<rparr>,
      \<lparr>w_topic = [66], w_average_score = 33 / 10, attempts = 7\<rparr>]"
    unfolding update_statistics_eq [OF ne] ls g
    by (simp add: m1 m2 example_round_thirds)
  have t1: "topic_scores_of example_tie_log [65] = [3, 3, 4]"
    by (simp add: topic_scores_of_def example_tie_log_def ev)
  have t2: "topic_scores_of example_tie_log [66] = [3, 3, 3, 3, 3, 4, 4]"
    by (simp add: topic_scores_of_def example_tie_log_def ev)
  have a: "mean_score (topic_scores_of example_tie_log [65]) = 10 / 3"
    unfolding t1 by (rule m1)
  have b: "mean_score (topic_scores_of example_tie_log [66]) = 23 / 7"
    unfolding t2 by (rule m2)
  have c: "mean_score (topic_scores_of example_tie_log [66])
       < mean_score (topic_scores_of example_tie_log [65])"
    unfolding a b by simp
  from w a b c show ?thesis by blast
qed

end
